(* ===== verification/Model_Prelude.thy ===== *)
theory Model_Prelude
  imports Complex_Main "HOL-Library.Word"
begin

text \<open>
  Shared vocabulary of the development. JavaScript numbers are modelled as
  \<open>jsnum\<close>: a finite value (an exact real) or \<open>NaN\<close>. \<open>NaN\<close> is also what
  \<open>undefined\<close> turns into as soon as the code does arithmetic with it, which is the
  only use \<open>server.js\<close> makes of an out-of-range read. IEEE rounding, infinities
  and signed zero are not represented; the code divides only by the non-zero literals
  \<open>255.0\<close> and \<open>100\<close>, so no infinity arises from division. Bytes of a
  Node \<open>Buffer\<close> or Jimp bitmap are \<open>8 word\<close>s. The collection \<open>js_simps\<close>
  gathers the evaluation rules of these operations for the component proofs.
\<close>

named_theorems js_simps "evaluation rules of the JavaScript value model"

type_synonym byte = "8 word"

datatype jsnum = Num real | NaN

text \<open>\<open>a > b\<close> on numbers: false as soon as one side is \<open>NaN\<close>.\<close>

fun js_gt :: "jsnum \<Rightarrow> jsnum \<Rightarrow> bool" where
  "js_gt (Num x) (Num y) = (y < x)"
| "js_gt _ _ = False"

fun js_sub :: "jsnum \<Rightarrow> jsnum \<Rightarrow> jsnum" where
  "js_sub (Num x) (Num y) = Num (x - y)"
| "js_sub _ _ = NaN"

fun js_mul :: "jsnum \<Rightarrow> jsnum \<Rightarrow> jsnum" where
  "js_mul (Num x) (Num y) = Num (x * y)"
| "js_mul _ _ = NaN"

text \<open>Division by a non-zero numeric literal \<open>c\<close> (the code's \<open>/ 255.0\<close> and \<open>/ 100\<close>).\<close>

fun js_div_lit :: "jsnum \<Rightarrow> real \<Rightarrow> jsnum" where
  "js_div_lit (Num x) c = Num (x / c)"
| "js_div_lit NaN c = NaN"

text \<open>
  \<open>Math.round\<close>: the closest integer, ties towards \<open>+\<infinity>\<close>, which on exact values is
  \<open>\<lfloor>x + 1/2\<rfloor>\<close>.
\<close>

fun js_round :: "jsnum \<Rightarrow> jsnum" where
  "js_round (Num x) = Num (of_int \<lfloor>x + 1 / 2\<rfloor>)"
| "js_round NaN = NaN"

text \<open>
  Reading index \<open>i\<close> of an array of numbers: \<open>undefined\<close> past the end, which
  arithmetic turns into \<open>NaN\<close>.
\<close>

definition js_index :: "jsnum list \<Rightarrow> nat \<Rightarrow> jsnum" where
  "js_index xs i = (if i < length xs then xs ! i else NaN)"

text \<open>Reading index \<open>i\<close> of a byte buffer as a number (\<open>data[i]\<close>).\<close>

definition byte_at :: "byte list \<Rightarrow> nat \<Rightarrow> jsnum" where
  "byte_at bs i = (if i < length bs then Num (real (unat (bs ! i))) else NaN)"

text \<open>
  A write \<open>a[i] = v\<close> to a typed array: ignored when \<open>i\<close> is out of range, as
  \<open>Float32Array\<close> does. HOL's \<open>xs[i := v]\<close> has that behaviour already; the lemma
  \<open>ta_set_out_of_range\<close> records it.
\<close>

definition ta_set :: "jsnum list \<Rightarrow> nat \<Rightarrow> jsnum \<Rightarrow> jsnum list" where
  "ta_set xs i v = xs[i := v]"

text \<open>Numbers that are finite and lie in a closed interval.\<close>

fun js_in_range :: "real \<Rightarrow> real \<Rightarrow> jsnum \<Rightarrow> bool" where
  "js_in_range lo hi (Num x) = (lo \<le> x \<and> x \<le> hi)"
| "js_in_range lo hi NaN = False"

text \<open>A property of the value of a call that may throw: vacuous on the error.\<close>

fun on_success :: "('a \<Rightarrow> bool) \<Rightarrow> 'e + 'a \<Rightarrow> bool" where
  "on_success P (Inl err) = True"
| "on_success P (Inr x) = P x"

subsection \<open>Evaluation rules\<close>

lemma on_success_intro: "(\<And>x. r = Inr x \<Longrightarrow> P x) \<Longrightarrow> on_success P r"
  by (cases r) auto

lemma js_index_simps [js_simps]:
  "js_index [] i = NaN"
  "js_index (x # xs) 0 = x"
  "js_index (x # xs) (Suc i) = js_index xs i"
  by (simp_all add: js_index_def)

lemma byte_at_in_range [js_simps]:
  "i < length bs \<Longrightarrow> byte_at bs i = Num (real (unat (bs ! i)))"
  by (simp add: byte_at_def)

lemma byte_at_out_of_range [js_simps]:
  "length bs \<le> i \<Longrightarrow> byte_at bs i = NaN"
  by (simp add: byte_at_def)

lemma ta_set_out_of_range [js_simps]:
  "length xs \<le> i \<Longrightarrow> ta_set xs i v = xs"
  by (simp add: ta_set_def list_update_beyond)

lemma length_ta_set [simp]: "length (ta_set xs i v) = length xs"
  by (simp add: ta_set_def)

lemma js_round_error:
  "js_round (Num x) = Num r \<Longrightarrow> \<bar>r - x\<bar> \<le> 1 / 2"
proof -
  assume "js_round (Num x) = Num r"
  then have r: "r = of_int \<lfloor>x + 1 / 2\<rfloor>" by simp
  have "of_int \<lfloor>x + 1 / 2\<rfloor> \<le> x + 1 / 2" by (rule of_int_floor_le)
  moreover have "x + 1 / 2 < of_int \<lfloor>x + 1 / 2\<rfloor> + 1" by (rule real_of_int_floor_add_one_gt)
  ultimately show ?thesis using r by linarith
qed

text \<open>Rounding keeps an integer lower or upper bound.\<close>

lemma js_round_mono_ge:
  "of_int k \<le> x \<Longrightarrow> js_round (Num x) = Num r \<Longrightarrow> of_int k \<le> r"
proof -
  assume k: "of_int k \<le> x" and "js_round (Num x) = Num r"
  then have r: "r = of_int \<lfloor>x + 1 / 2\<rfloor>" by simp
  from k have "k \<le> \<lfloor>x + 1 / 2\<rfloor>" by (simp add: le_floor_iff)
  with r show ?thesis by simp
qed

lemma js_round_mono_le:
  "x \<le> of_int k \<Longrightarrow> js_round (Num x) = Num r \<Longrightarrow> r \<le> of_int k"
proof -
  assume k: "x \<le> of_int k" and "js_round (Num x) = Num r"
  then have r: "r = of_int \<lfloor>x + 1 / 2\<rfloor>" by simp
  from k have "\<lfloor>x + 1 / 2\<rfloor> \<le> k" by (simp add: floor_le_iff)
  with r show ?thesis by simp
qed

lemma real_unat_byte_le [js_simps]: "real (unat (w :: byte)) \<le> 255"
proof -
  have "unat w < 2 ^ LENGTH(8)" by (rule unsigned_less)
  then have "unat w \<le> 255" by simp
  then have "real (unat w) \<le> real (255::nat)" by (rule of_nat_mono)
  then show ?thesis by simp
qed

lemma byte_scaled_range: "0 \<le> real (unat (w :: byte)) / 255 \<and> real (unat w) / 255 \<le> 1"
proof -
  have "0 \<le> real (unat w)" by (rule of_nat_0_le_iff)
  with real_unat_byte_le [of w] show ?thesis by simp
qed

subsection \<open>Lists updated at three consecutive places\<close>

lemma take_update3:
  assumes "k + 3 \<le> length xs"
  shows "take (k + 3) (xs[k := a, Suc k := b, Suc (Suc k) := c]) = take k xs @ [a, b, c]"
proof (rule nth_equalityI)
  show "length (take (k + 3) (xs[k := a, Suc k := b, Suc (Suc k) := c])) =
      length (take k xs @ [a, b, c])"
    using assms by simp
next
  fix i assume "i < length (take (k + 3) (xs[k := a, Suc k := b, Suc (Suc k) := c]))"
  then have i: "i < k + 3" using assms by simp
  then consider "i < k" | "i = k" | "i = Suc k" | "i = Suc (Suc k)" by linarith
  then show "take (k + 3) (xs[k := a, Suc k := b, Suc (Suc k) := c]) ! i =
      (take k xs @ [a, b, c]) ! i"
    using assms i by cases (simp_all add: nth_append)
qed

end
