(* ===== verification/Image_Normalizer.thy ===== *)
theory Image_Normalizer
  imports Model_Prelude "HOL-Library.While_Combinator"
begin

text \<open>
  The pixel part of \<open>preprocessImage\<close> (\<open>src/server.js\<close>, lines 66--80): Jimp's
  bitmap (\<open>bitmap\<close>: width, height and the RGBA bytes, four per pixel, row-major) is
  copied into a \<open>Float32Array\<close> of \<open>width * height * 3\<close> numbers by a loop that
  steps four bytes at a time and writes red, green and blue divided by 255.
  \<open>rgb_loop\<close> is that loop, with the read of \<open>data[i]\<close> past the end giving
  \<open>NaN\<close> and the write past the end of the typed array ignored, as in JavaScript.
  \<open>rgba_to_rgb\<close> is the reference the spec describes (drop alpha, divide by 255);
  \<open>to_rgb_reference\<close> shows that the loop computes it whenever the bitmap holds
  \<open>4 * width * height\<close> bytes, which Jimp guarantees. Decoding and resizing
  (\<open>Jimp.read\<close>, \<open>image.resize\<close>) are library code; they enter later theories as
  parameters.
\<close>

record bitmap =
  width :: nat
  height :: nat
  bdata :: "byte list"

text \<open>\<open>data[j] / 255.0\<close>.\<close>

definition channel :: "byte list \<Rightarrow> nat \<Rightarrow> jsnum" where
  "channel data j = js_div_lit (byte_at data j) 255"

text \<open>The \<open>for\<close> loop of lines 75--80, with \<open>i\<close> and \<open>rgbIndex\<close> as parameters.\<close>

function rgb_loop :: "byte list \<Rightarrow> nat \<Rightarrow> nat \<Rightarrow> jsnum list \<Rightarrow> jsnum list" where
  "rgb_loop data i rgbIndex rgbData =
     (if i < length data
      then rgb_loop data (i + 4) (rgbIndex + 3)
             (ta_set (ta_set (ta_set rgbData rgbIndex (channel data i))
                (rgbIndex + 1) (channel data (i + 1)))
                (rgbIndex + 2) (channel data (i + 2)))
      else rgbData)"
  by pat_completeness auto
termination
  by (relation "measure (\<lambda>(data, i, _, _). length data - i)") auto

declare rgb_loop.simps [simp del]

text \<open>Lines 67--80: allocate the zero-filled \<open>Float32Array\<close> and run the loop.\<close>

definition to_rgb :: "bitmap \<Rightarrow> jsnum list" where
  "to_rgb img =
     rgb_loop (bdata img) 0 0 (replicate (width img * height img * 3) (Num 0))"

text \<open>The same loop kept as a loop: its state is \<open>(i, rgbIndex, rgbData)\<close>, its body
  the three writes of lines 76--78 and the two increments, its guard \<open>i < data.length\<close>
  (line 75); \<open>while_option\<close> is \<open>None\<close> if the loop never stops.\<close>

definition rgb_step :: "byte list \<Rightarrow> nat \<times> nat \<times> jsnum list \<Rightarrow> nat \<times> nat \<times> jsnum list" where
  "rgb_step data = (\<lambda>(i, rgbIndex, rgbData).
     (i + 4, rgbIndex + 3,
      ta_set (ta_set (ta_set rgbData rgbIndex (channel data i))
        (rgbIndex + 1) (channel data (i + 1)))
        (rgbIndex + 2) (channel data (i + 2))))"

definition rgb_while :: "byte list \<Rightarrow> nat \<Rightarrow> nat \<Rightarrow> jsnum list \<Rightarrow> (nat \<times> nat \<times> jsnum list) option" where
  "rgb_while data i rgbIndex rgbData =
     while_option (\<lambda>(i, _, _). i < length data) (rgb_step data) (i, rgbIndex, rgbData)"

text \<open>The reference of spec section 4.1: drop every alpha byte, scale the others.\<close>

fun rgba_to_rgb :: "byte list \<Rightarrow> real list" where
  "rgba_to_rgb (r # g # b # a # rest) =
     real (unat r) / 255 # real (unat g) / 255 # real (unat b) / 255 # rgba_to_rgb rest"
| "rgba_to_rgb _ = []"

text \<open>A bitmap as Jimp delivers it: four bytes per pixel.\<close>

definition bitmap_ok :: "bitmap \<Rightarrow> bool" where
  "bitmap_ok img \<longleftrightarrow> length (bdata img) = 4 * (width img * height img)"

subsection \<open>Lemmas on the loop\<close>

lemma length_rgb_loop: "length (rgb_loop data i k out) = length out"
  by (induction data i k out rule: rgb_loop.induct) (simp add: rgb_loop.simps)

lemma channel_in_range:
  "j < length data \<Longrightarrow> channel data j = Num (real (unat (data ! j)) / 255)"
  by (simp add: channel_def byte_at_in_range)

lemma drop_four:
  assumes "i + 4 \<le> length xs"
  shows "drop i xs = xs ! i # xs ! (i + 1) # xs ! (i + 2) # xs ! (i + 3) # drop (i + 4) xs"
  using assms
  by (simp add: Cons_nth_drop_Suc numeral_Bit0 numeral_Bit1 add.assoc [symmetric])

lemma rgb_loop_reference:
  assumes "length data = 4 * n" and "length out = 3 * n"
    and "i = 4 * m" and "k = 3 * m" and "m \<le> n"
  shows "rgb_loop data i k out = take k out @ map Num (rgba_to_rgb (drop i data))"
  using assms
proof (induction data i k out arbitrary: m rule: rgb_loop.induct)
  case (1 data i k out)
  show ?case
  proof (cases "i < length data")
    case False
    with "1.prems" have "m = n" by simp
    with "1.prems" show ?thesis by (simp add: rgb_loop.simps)
  next
    case True
    with "1.prems" have mn: "m < n" by simp
    have four: "i + 4 \<le> length data" using "1.prems" mn by simp
    have three: "k + 3 \<le> length out" using "1.prems" mn by simp
    let ?out' = "ta_set (ta_set (ta_set out k (channel data i))
                   (k + 1) (channel data (i + 1))) (k + 2) (channel data (i + 2))"
    have IH: "rgb_loop data (i + 4) (k + 3) ?out' =
        take (k + 3) ?out' @ map Num (rgba_to_rgb (drop (i + 4) data))"
      using "1.prems" mn True by (intro "1.IH" [of "Suc m"]) simp_all
    have tk: "take (k + 3) ?out' =
        take k out @ [channel data i, channel data (i + 1), channel data (i + 2)]"
      using take_update3 [OF three] by (simp add: ta_set_def)
    have "rgb_loop data i k out = rgb_loop data (i + 4) (k + 3) ?out'"
      using True by (simp add: rgb_loop.simps [of data i k out])
    also have "\<dots> = take (k + 3) ?out' @ map Num (rgba_to_rgb (drop (i + 4) data))"
      by (rule IH)
    also have "\<dots> = (take k out @ [channel data i, channel data (i + 1), channel data (i + 2)]) @
        map Num (rgba_to_rgb (drop (i + 4) data))"
      by (simp only: tk)
    also have "\<dots> = take k out @ map Num (rgba_to_rgb (drop i data))"
      using four by (simp add: drop_four channel_in_range)
    finally show ?thesis .
  qed
qed

lemma rgba_to_rgb_bounds: "v \<in> set (rgba_to_rgb data) \<Longrightarrow> 0 \<le> v \<and> v \<le> 1"
proof (induction data rule: rgba_to_rgb.induct)
  case (1 r g b a rest)
  from "1.prems" consider "v = real (unat r) / 255" | "v = real (unat g) / 255"
    | "v = real (unat b) / 255" | "v \<in> set (rgba_to_rgb rest)"
    by auto
  then show ?case using byte_scaled_range "1.IH" by cases blast+
qed simp_all

lemma length_rgba_to_rgb: "length (rgba_to_rgb data) = 3 * (length data div 4)"
  by (induction data rule: rgba_to_rgb.induct) simp_all

lemma length_to_rgb: "length (to_rgb img) = width img * height img * 3"
  by (simp add: to_rgb_def length_rgb_loop)

lemma to_rgb_reference:
  assumes "bitmap_ok img"
  shows "to_rgb img = map Num (rgba_to_rgb (bdata img))"
proof -
  have "rgb_loop (bdata img) 0 0 (replicate (width img * height img * 3) (Num 0)) =
      take 0 (replicate (width img * height img * 3) (Num 0)) @ map Num (rgba_to_rgb (drop 0 (bdata img)))"
    using assms unfolding bitmap_ok_def
    by (intro rgb_loop_reference [where n = "width img * height img" and m = 0]) simp_all
  then show ?thesis by (simp add: to_rgb_def)
qed

lemma to_rgb_in_range:
  "bitmap_ok img \<Longrightarrow> v \<in> set (to_rgb img) \<Longrightarrow> js_in_range 0 1 v"
  using rgba_to_rgb_bounds by (auto simp: to_rgb_reference)

lemma quarter_step: "0 < (n::nat) \<Longrightarrow> (n - 4 + 3) div 4 + 1 = (n + 3) div 4"
  by presburger

lemma rgb_while_loop:
  "rgb_while data i k out =
     Some (i + 4 * ((length data - i + 3) div 4), k + 3 * ((length data - i + 3) div 4), rgb_loop data i k out)"
proof (induction data i k out rule: rgb_loop.induct)
  case (1 data i k out)
  show ?case
  proof (cases "i < length data")
    case True
    have step: "(length data - (i + 4) + 3) div 4 + 1 = (length data - i + 3) div 4"
      using True quarter_step [of "length data - i"] by (simp add: diff_diff_add)
    have "rgb_while data i k out = rgb_while data (i + 4) (k + 3)
            (ta_set (ta_set (ta_set out k (channel data i)) (k + 1) (channel data (i + 1)))
               (k + 2) (channel data (i + 2)))"
      using True by (simp add: rgb_while_def rgb_step_def while_option_unfold [of _ _ "(i, k, out)"])
    also have "\<dots> = Some (i + 4 * ((length data - i + 3) div 4), k + 3 * ((length data - i + 3) div 4),
                          rgb_loop data i k out)"
      using "1.IH" [OF True] step True
      by (simp add: rgb_loop.simps [of data i k out] del: rgb_loop.simps)
    finally show ?thesis .
  next
    case False
    then show ?thesis
      by (simp add: rgb_while_def while_option_unfold [of _ _ "(i, k, out)"] rgb_loop.simps)
  qed
qed

subsection \<open>Properties\<close>

text \<open>
  C7: on a bitmap with four bytes per pixel, the loop computes exactly the reference:
  the red, green and blue bytes of each pixel divided by 255, alpha dropped, in order;
  there are three values per pixel and each is a finite number in [0, 1].
\<close>

theorem to_rgb_normalizes:
  assumes "bitmap_ok img"
  shows "to_rgb img = map Num (rgba_to_rgb (bdata img)) \<and>
         length (to_rgb img) = 3 * (width img * height img) \<and>
         (\<forall>v \<in> set (to_rgb img). js_in_range 0 1 v)"
  using assms to_rgb_reference [OF assms] to_rgb_in_range [OF assms] length_to_rgb [of img]
  by simp

theorem to_rgb_normalizes_witness:
  "bitmap_ok \<lparr>width = 1, height = 1, bdata = [10, 20, 30, 255]\<rparr> \<and>
   to_rgb \<lparr>width = 1, height = 1, bdata = [10, 20, 30, 255]\<rparr> = [Num (10 / 255), Num (20 / 255), Num (30 / 255)]"
proof -
  have ok: "bitmap_ok \<lparr>width = 1, height = 1, bdata = [10 :: byte, 20, 30, 255]\<rparr>"
    by (simp add: bitmap_ok_def)
  show ?thesis using ok to_rgb_normalizes [OF ok, THEN conjunct1] by simp
qed

text \<open>
  C27: the \<open>for\<close> loop of lines 75--80, run as a loop from \<open>i = 0\<close>, terminates on every
  bitmap, after exactly \<open>ceil(data.length / 4)\<close> iterations (its counters end at four
  and three times that), with the array \<open>to_rgb\<close> computes.
\<close>

theorem to_rgb_loop_terminates:
  "rgb_while (bdata img) 0 0 (replicate (width img * height img * 3) (Num 0)) =
     Some (4 * ((length (bdata img) + 3) div 4), 3 * ((length (bdata img) + 3) div 4), to_rgb img)"
  using rgb_while_loop [of "bdata img" 0 0] by (simp add: to_rgb_def)

end
