(* ===== verification/Tensor_Store.thy ===== *)
theory Tensor_Store
  imports Model_Prelude
begin

text \<open>
  The part of the TensorFlow.js engine that \<open>src/server.js\<close> drives: tensor handles
  and the data buffers behind them. A tensor handle (\<open>tensor_info\<close>) has a shape and
  the id of its data buffer; a buffer carries a reference count and is freed when the
  last handle on it is disposed, as in \<open>tfjs-core\<close>. Under \<open>tfjs-node\<close> (line 3) every
  operation the code calls, \<open>expandDims\<close> included (a native \<open>ExpandDims\<close> kernel),
  returns a tensor on a data buffer of its own, so each handle here has its own buffer. The engine keeps the live handles,
  the buffers with their reference counts, and a counter for fresh ids. The operations
  are the library calls of the code: \<open>tf.tensor3d\<close> (line 83), \<open>expandDims\<close>
  (line 84), \<open>model.predict\<close> (line 101), \<open>prediction.data()\<close> (line 102) and
  \<open>dispose\<close> (lines 105--106). The graph computation itself is a parameter
  (\<open>forward\<close> of a \<open>graph_model\<close>). \<open>engine_wf\<close> is the engine's invariant (ids are
  fresh, every handle has its buffer, every reference count is the number of live
  handles on the buffer); every operation keeps it. \<open>num_tensors\<close> and
  \<open>num_buffers\<close> are what \<open>tf.memory()\<close> reports as \<open>numTensors\<close> and
  \<open>numDataBuffers\<close>.
\<close>

datatype tf_error = RankError | ShapeError | AxisError | DisposedError

record tensor_info =
  tshape :: "nat list"
  tdata :: nat

record engine =
  tensors :: "nat \<rightharpoonup> tensor_info"
  buffers :: "nat \<rightharpoonup> jsnum list \<times> nat"
  next_id :: nat

text \<open>A loaded graph model: its declared input shape (\<open>-1\<close> for a free dimension),
  the forward computation, and the shape of its output.\<close>

record graph_model =
  inputShape :: "int list"
  forward :: "jsnum list \<Rightarrow> jsnum list"
  outputShape :: "nat list"

definition empty_engine :: engine where
  "empty_engine = \<lparr>tensors = Map.empty, buffers = Map.empty, next_id = 0\<rparr>"

text \<open>A new handle on a new buffer holding \<open>vals\<close>, with reference count 1.\<close>

definition alloc_tensor :: "engine \<Rightarrow> jsnum list \<Rightarrow> nat list \<Rightarrow> engine \<times> nat" where
  "alloc_tensor e vals shape =
     (let n = next_id e
      in (e\<lparr>tensors := (tensors e)(n \<mapsto> \<lparr>tshape = shape, tdata = n\<rparr>),
            buffers := (buffers e)(n \<mapsto> (vals, 1)),
            next_id := Suc n\<rparr>, n))"

text \<open>\<open>tf.tensor3d(values, shape)\<close>: the shape must have rank 3 and as many elements as
  there are values.\<close>

definition tensor3d :: "engine \<Rightarrow> jsnum list \<Rightarrow> nat list \<Rightarrow> tf_error + engine \<times> nat" where
  "tensor3d e vals shape =
     (if length shape \<noteq> 3 then Inl RankError
      else if length vals \<noteq> prod_list shape then Inl ShapeError
      else Inr (alloc_tensor e vals shape))"

text \<open>\<open>t.expandDims(axis)\<close>: the native \<open>ExpandDims\<close> kernel of \<open>tfjs-node\<close> returns
  a new tensor, on a new data buffer holding the same values, with a 1 inserted in the
  shape at \<open>axis\<close> (at most the rank).\<close>

definition expand_dims :: "engine \<Rightarrow> nat \<Rightarrow> nat \<Rightarrow> tf_error + engine \<times> nat" where
  "expand_dims e t axis =
     (case tensors e t of
        None \<Rightarrow> Inl DisposedError
      | Some ti \<Rightarrow>
          if length (tshape ti) < axis then Inl AxisError
          else (case buffers e (tdata ti) of
                  None \<Rightarrow> Inl DisposedError
                | Some (vs, _) \<Rightarrow>
                    Inr (alloc_tensor e vs (take axis (tshape ti) @ 1 # drop axis (tshape ti)))))"

text \<open>\<open>t.dispose()\<close>: a no-op on a disposed handle; otherwise the handle goes and its
  buffer's count drops, the buffer going with its last handle.\<close>

definition dispose :: "engine \<Rightarrow> nat \<Rightarrow> engine" where
  "dispose e t =
     (case tensors e t of
        None \<Rightarrow> e
      | Some ti \<Rightarrow>
          (let d = tdata ti; e' = e\<lparr>tensors := (tensors e)(t := None)\<rparr>
           in case buffers e d of
                None \<Rightarrow> e'
              | Some (vs, rc) \<Rightarrow>
                  if rc \<le> 1 then e'\<lparr>buffers := (buffers e)(d := None)\<rparr>
                  else e'\<lparr>buffers := (buffers e)(d \<mapsto> (vs, rc - 1))\<rparr>))"

text \<open>\<open>await t.data()\<close>: the values of a live tensor.\<close>

definition data_sync :: "engine \<Rightarrow> nat \<Rightarrow> tf_error + jsnum list" where
  "data_sync e t =
     (case tensors e t of
        None \<Rightarrow> Inl DisposedError
      | Some ti \<Rightarrow> (case buffers e (tdata ti) of
                     None \<Rightarrow> Inl DisposedError
                   | Some (vs, _) \<Rightarrow> Inr vs))"

text \<open>The input check of the graph executor: same rank, and every declared dimension
  is \<open>-1\<close> or equal to the tensor's.\<close>

definition shape_compatible :: "int list \<Rightarrow> nat list \<Rightarrow> bool" where
  "shape_compatible ms ts = list_all2 (\<lambda>m t. m = -1 \<or> m = int t) ms ts"

text \<open>\<open>model.predict(t)\<close>: checks the input, runs the graph (its intermediate tensors
  are released inside the call) and returns one new output tensor.\<close>

definition graph_predict :: "graph_model \<Rightarrow> engine \<Rightarrow> nat \<Rightarrow> tf_error + engine \<times> nat" where
  "graph_predict m e t =
     (case tensors e t of
        None \<Rightarrow> Inl DisposedError
      | Some ti \<Rightarrow>
          if \<not> shape_compatible (inputShape m) (tshape ti) then Inl ShapeError
          else (case buffers e (tdata ti) of
                  None \<Rightarrow> Inl DisposedError
                | Some (vs, _) \<Rightarrow> Inr (alloc_tensor e (forward m vs) (outputShape m))))"

definition refs_of :: "(nat \<rightharpoonup> tensor_info) \<Rightarrow> nat \<Rightarrow> nat" where
  "refs_of m d = card {t. \<exists>ti. m t = Some ti \<and> tdata ti = d}"

definition engine_wf :: "engine \<Rightarrow> bool" where
  "engine_wf e \<longleftrightarrow>
     finite (dom (tensors e)) \<and> finite (dom (buffers e)) \<and>
     (\<forall>t \<in> dom (tensors e). t < next_id e) \<and>
     (\<forall>d \<in> dom (buffers e). d < next_id e) \<and>
     (\<forall>t ti. tensors e t = Some ti \<longrightarrow> tdata ti \<in> dom (buffers e)) \<and>
     (\<forall>d vs rc. buffers e d = Some (vs, rc) \<longrightarrow> rc = refs_of (tensors e) d \<and> 0 < rc)"

definition num_tensors :: "engine \<Rightarrow> nat" where
  "num_tensors e = card (dom (tensors e))"

definition num_buffers :: "engine \<Rightarrow> nat" where
  "num_buffers e = card (dom (buffers e))"

subsection \<open>Reference counts\<close>

lemma refs_of_fresh:
  assumes "finite (dom m)" and "n \<notin> dom m"
  shows "refs_of (m(n \<mapsto> ti)) d = refs_of m d + (if tdata ti = d then 1 else 0)"
proof -
  let ?S = "{t. \<exists>ti'. m t = Some ti' \<and> tdata ti' = d}"
  have fin: "finite ?S" by (rule finite_subset [of _ "dom m"]) (auto simp: assms(1))
  have n: "n \<notin> ?S" using assms(2) by auto
  have "{t. \<exists>ti'. (m(n \<mapsto> ti)) t = Some ti' \<and> tdata ti' = d} =
      (if tdata ti = d then insert n ?S else ?S)"
    using assms(2) by auto
  then show ?thesis using fin n by (simp add: refs_of_def)
qed

lemma refs_of_remove:
  assumes "finite (dom m)" and "m t = Some ti"
  shows "refs_of (m(t := None)) d = refs_of m d - (if tdata ti = d then 1 else 0)"
proof -
  let ?S = "{t. \<exists>ti'. m t = Some ti' \<and> tdata ti' = d}"
  have fin: "finite ?S" by (rule finite_subset [of _ "dom m"]) (auto simp: assms(1))
  have "{t'. \<exists>ti'. (m(t := None)) t' = Some ti' \<and> tdata ti' = d} = ?S - {t}"
    by auto
  moreover have "tdata ti = d \<Longrightarrow> t \<in> ?S" using assms(2) by auto
  moreover have "tdata ti \<noteq> d \<Longrightarrow> ?S - {t} = ?S" using assms(2) by auto
  ultimately show ?thesis using fin by (auto simp: refs_of_def)
qed

lemma refs_of_pos:
  assumes "finite (dom m)" and "m t = Some ti"
  shows "0 < refs_of m (tdata ti)"
proof -
  let ?S = "{t. \<exists>ti'. m t = Some ti' \<and> tdata ti' = tdata ti}"
  have fin: "finite ?S" by (rule finite_subset [of _ "dom m"]) (auto simp: assms(1))
  moreover have "t \<in> ?S" using assms(2) by auto
  ultimately show ?thesis unfolding refs_of_def by (auto simp: card_gt_0_iff)
qed

lemma refs_of_unused:
  assumes "\<And>t ti. m t = Some ti \<Longrightarrow> tdata ti \<noteq> d"
  shows "refs_of m d = 0"
proof -
  have none: "{t. \<exists>ti. m t = Some ti \<and> tdata ti = d} = {}" using assms by auto
  show ?thesis by (simp only: refs_of_def none card.empty)
qed

lemma engine_wf_fresh:
  assumes "engine_wf e"
  shows "tensors e (next_id e) = None" and "buffers e (next_id e) = None"
    and "refs_of (tensors e) (next_id e) = 0"
proof -
  show t: "tensors e (next_id e) = None" and b: "buffers e (next_id e) = None"
    using assms unfolding engine_wf_def by blast+
  have "\<And>t ti. tensors e t = Some ti \<Longrightarrow> tdata ti \<noteq> next_id e"
    using assms b unfolding engine_wf_def by (metis domIff)
  then show "refs_of (tensors e) (next_id e) = 0" by (rule refs_of_unused)
qed

lemma engine_wf_fresh_above:
  assumes wf: "engine_wf e" and k: "next_id e \<le> k"
  shows "tensors e k = None \<and> buffers e k = None"
proof -
  have "k \<notin> dom (tensors e)" and "k \<notin> dom (buffers e)"
    using wf k unfolding engine_wf_def by (meson leD)+
  then show ?thesis by auto
qed

lemma card_dom_fresh:
  "finite (dom m) \<Longrightarrow> m a = None \<Longrightarrow> card (dom (m(a \<mapsto> x))) = Suc (card (dom m))"
  by (simp add: domIff)

lemma engine_wf_finite_buffers:
  "engine_wf e \<Longrightarrow> finite (dom (buffers e))"
  by (simp add: engine_wf_def)

lemma engine_wf_empty: "engine_wf empty_engine"
  by (simp add: engine_wf_def empty_engine_def)


lemma engine_wf_finite:
  "engine_wf e \<Longrightarrow> finite (dom (tensors e))"
  by (simp add: engine_wf_def)

lemma engine_wf_buffer_of:
  "engine_wf e \<Longrightarrow> tensors e t = Some ti \<Longrightarrow> \<exists>vs rc. buffers e (tdata ti) = Some (vs, rc) \<and> rc = refs_of (tensors e) (tdata ti) \<and> 0 < rc"
  unfolding engine_wf_def by fastforce

lemma alloc_tensor_wf:
  assumes wf: "engine_wf e"
  shows "engine_wf (fst (alloc_tensor e vals shape))"
proof -
  let ?n = "next_id e"
  let ?m = "(tensors e)(?n \<mapsto> \<lparr>tshape = shape, tdata = ?n\<rparr>)"
  have fr: "tensors e ?n = None" "buffers e ?n = None" "refs_of (tensors e) ?n = 0"
    using engine_wf_fresh [OF wf] by simp_all
  have refs: "\<And>d. refs_of ?m d = refs_of (tensors e) d + (if ?n = d then 1 else 0)"
    using refs_of_fresh [OF engine_wf_finite [OF wf], of ?n] fr by (simp add: domIff)
  show ?thesis
    using wf fr unfolding engine_wf_def alloc_tensor_def Let_def
    by (auto simp: refs less_Suc_eq)
qed

lemma refs_of_zero_unused:
  assumes "finite (dom m)" and "refs_of m d = 0" and "m t = Some ti"
  shows "tdata ti \<noteq> d"
  using refs_of_pos [OF assms(1,3)] assms(2) by auto

lemma dispose_wf:
  assumes wf: "engine_wf e"
  shows "engine_wf (dispose e t)"
proof (cases "tensors e t")
  case None
  then show ?thesis using wf by (simp add: dispose_def)
next
  case (Some ti)
  let ?d = "tdata ti"
  let ?m = "(tensors e)(t := None)"
  from engine_wf_buffer_of [OF wf Some] obtain vs rc where
    b: "buffers e ?d = Some (vs, rc)" and rc: "rc = refs_of (tensors e) ?d" and pos: "0 < rc"
    by blast
  have fin: "finite (dom (tensors e))" by (rule engine_wf_finite [OF wf])
  have fin': "finite (dom ?m)" using fin by simp
  have refs: "\<And>x. refs_of ?m x = refs_of (tensors e) x - (if ?d = x then 1 else 0)"
    using refs_of_remove [OF fin Some] by simp
  show ?thesis
  proof (cases "rc \<le> 1")
    case True
    then have "refs_of ?m ?d = 0" using refs rc by simp
    then have unused: "\<And>t' ti'. ?m t' = Some ti' \<Longrightarrow> tdata ti' \<noteq> ?d"
      using refs_of_zero_unused [OF fin'] by blast
    have res: "dispose e t = e\<lparr>tensors := ?m, buffers := (buffers e)(?d := None)\<rparr>"
      using Some b True by (simp add: dispose_def)
    show ?thesis
      unfolding res engine_wf_def
    proof (intro conjI)
      show "\<forall>t' ti'. tensors (e\<lparr>tensors := ?m, buffers := (buffers e)(?d := None)\<rparr>) t' = Some ti' \<longrightarrow>
          tdata ti' \<in> dom (buffers (e\<lparr>tensors := ?m, buffers := (buffers e)(?d := None)\<rparr>))"
        using wf unused unfolding engine_wf_def by (auto split: if_splits)
      show "\<forall>x vs rc. buffers (e\<lparr>tensors := ?m, buffers := (buffers e)(?d := None)\<rparr>) x = Some (vs, rc) \<longrightarrow>
          rc = refs_of (tensors (e\<lparr>tensors := ?m, buffers := (buffers e)(?d := None)\<rparr>)) x \<and> 0 < rc"
        using wf unfolding engine_wf_def by (auto simp: refs)
    qed (use wf in \<open>auto simp: engine_wf_def\<close>)
  next
    case False
    have res: "dispose e t = e\<lparr>tensors := ?m, buffers := (buffers e)(?d \<mapsto> (vs, rc - 1))\<rparr>"
      using Some b False by (simp add: dispose_def)
    have dom_b: "?d \<in> dom (buffers e)" using b by blast
    show ?thesis
      using wf False rc dom_b unfolding res engine_wf_def
      by (auto simp: refs insert_absorb)
  qed
qed


lemma alloc_tensor_wf_pair:
  "engine_wf e \<Longrightarrow> alloc_tensor e vals shape = (e', n) \<Longrightarrow> engine_wf e'"
  using alloc_tensor_wf [of e vals shape] by simp

lemma tensor3d_wf:
  "engine_wf e \<Longrightarrow> tensor3d e vals shape = Inr (e', n) \<Longrightarrow> engine_wf e'"
  by (auto simp: tensor3d_def alloc_tensor_wf_pair split: if_splits)

lemma expand_dims_wf:
  "engine_wf e \<Longrightarrow> expand_dims e t axis = Inr (e', n) \<Longrightarrow> engine_wf e'"
  by (auto simp: expand_dims_def alloc_tensor_wf_pair split: option.splits if_splits)

lemma graph_predict_wf:
  "engine_wf e \<Longrightarrow> graph_predict m e t = Inr (e', n) \<Longrightarrow> engine_wf e'"
  by (auto simp: graph_predict_def alloc_tensor_wf_pair split: option.splits if_splits)

end
