(* ===== verification/Result_Interpreter.thy ===== *)
theory Result_Interpreter
  imports Model_Prelude
begin

text \<open>
  The Result Interpreter: the tail of \<open>makePrediction\<close> in \<open>src/server.js\<close>
  (lines 108--118), which turns the model's raw score into a diagnosis and a
  confidence percentage rounded to two decimals. \<open>interpret_score\<close> is that code;
  \<open>spec_interpret\<close> is the contract of the spec (section 4.3) on exact numbers, and
  \<open>interpret_score_refines\<close> ties the two together. The lemmas below give the
  behaviour at the threshold, the symmetry around 0.5, the range of the confidence and
  the error of the rounding.
\<close>

datatype diagnosis = Benigno | Maligno

text \<open>The global \<open>classNames\<close> (line 26) and the label string each diagnosis is sent as.\<close>

definition classNames :: "string list" where
  "classNames = [''Benigno'', ''Maligno'']"

fun diagnosis_name :: "diagnosis \<Rightarrow> string" where
  "diagnosis_name Benigno = ''Benigno''"
| "diagnosis_name Maligno = ''Maligno''"

text \<open>The object \<open>makePrediction\<close> returns (lines 114--118).\<close>

record prediction =
  diagnosis :: diagnosis
  confidence :: jsnum
  rawPrediction :: jsnum

text \<open>Lines 109--118, applied to \<open>confidence = predictionData[0]\<close>.\<close>

definition interpret_score :: "jsnum \<Rightarrow> prediction" where
  "interpret_score c =
     (let isMalignant = js_gt c (Num (1 / 2));
          diag = (if isMalignant then Maligno else Benigno);
          finalConfidence = (if isMalignant then c else js_sub (Num 1) c)
      in \<lparr>diagnosis = diag,
          confidence = js_div_lit (js_round (js_mul (js_mul finalConfidence (Num 100)) (Num 100))) 100,
          rawPrediction = c\<rparr>)"

subsection \<open>The contract\<close>

text \<open>
  Spec section 4.3 on exact numbers: above 0.5 the label is malignant with the score as
  confidence, otherwise benign with its complement; the percentage is rounded to two
  decimals, here half-up as \<open>Math.round\<close> does.
\<close>

definition round2 :: "real \<Rightarrow> real" where
  "round2 p = of_int \<lfloor>p * 100 + 1 / 2\<rfloor> / 100"

definition spec_interpret :: "real \<Rightarrow> diagnosis \<times> real" where
  "spec_interpret x = (if 1 / 2 < x then (Maligno, round2 (x * 100)) else (Benigno, round2 ((1 - x) * 100)))"

subsection \<open>Closed forms\<close>

lemma interpret_score_Num:
  "interpret_score (Num x) =
     (if 1 / 2 < x
      then \<lparr>diagnosis = Maligno, confidence = Num (round2 (x * 100)), rawPrediction = Num x\<rparr>
      else \<lparr>diagnosis = Benigno, confidence = Num (round2 ((1 - x) * 100)), rawPrediction = Num x\<rparr>)"
  by (simp add: interpret_score_def round2_def Let_def mult.assoc)

lemma interpret_score_NaN:
  "interpret_score NaN = \<lparr>diagnosis = Benigno, confidence = NaN, rawPrediction = NaN\<rparr>"
  by (simp add: interpret_score_def)

lemma round2_bounds:
  "of_int k \<le> p * 100 \<Longrightarrow> of_int k / 100 \<le> round2 p"
  "p * 100 \<le> of_int k \<Longrightarrow> round2 p \<le> of_int k / 100"
  using js_round_mono_ge [of k "p * 100"] js_round_mono_le [of "p * 100" k]
  by (simp_all add: round2_def divide_right_mono)

lemma round2_error: "\<bar>round2 p - p\<bar> \<le> 1 / 200"
proof -
  have "\<bar>of_int \<lfloor>p * 100 + 1 / 2\<rfloor> - p * 100\<bar> \<le> 1 / 2"
    using js_round_error [of "p * 100"] by simp
  then have "\<bar>(of_int \<lfloor>p * 100 + 1 / 2\<rfloor> - p * 100) / 100\<bar> \<le> 1 / 200"
    by simp
  then show ?thesis by (simp add: round2_def diff_divide_distrib)
qed

lemma round2_cents: "round2 p * 100 = of_int \<lfloor>p * 100 + 1 / 2\<rfloor>"
  by (simp add: round2_def)

lemmas interpret_closed = interpret_score_Num interpret_score_NaN

subsection \<open>Properties\<close>

text \<open>C1: the code implements the contract of spec section 4.3 on every finite score.\<close>

theorem interpret_score_refines:
  "interpret_score (Num x) =
     \<lparr>diagnosis = fst (spec_interpret x), confidence = Num (snd (spec_interpret x)),
      rawPrediction = Num x\<rparr>"
  by (simp add: interpret_score_Num spec_interpret_def)

text \<open>
  C2: the label is malignant exactly when the score is above 0.5; \<open>NaN\<close> (also an
  absent score) is benign.
\<close>

theorem interpret_threshold:
  "diagnosis (interpret_score c) = Maligno \<longleftrightarrow> js_gt c (Num (1 / 2))"
  by (cases c) (simp_all add: interpret_closed)

text \<open>
  C3: symmetry around 0.5: the scores \<open>x\<close> and \<open>1 - x\<close> with \<open>x \<noteq> 0.5\<close> get opposite
  labels and the same confidence.
\<close>

theorem interpret_symmetry:
  assumes "x \<noteq> 1 / 2"
  shows "diagnosis (interpret_score (Num (1 - x))) \<noteq> diagnosis (interpret_score (Num x)) \<and>
         confidence (interpret_score (Num (1 - x))) = confidence (interpret_score (Num x))"
  using assms by (auto simp: interpret_score_Num)

text \<open>
  C4: every finite score, also one outside [0, 1], gets a finite confidence of at least
  50: the confidence never goes negative.
\<close>

theorem interpret_confidence_ge_50:
  "\<exists>p. confidence (interpret_score (Num x)) = Num p \<and> 50 \<le> p"
proof (cases "1 / 2 < x")
  case True
  then have "of_int 5000 \<le> x * 100 * 100" by simp
  then have "50 \<le> round2 (x * 100)" using round2_bounds(1) [of 5000 "x * 100"] by simp
  with True show ?thesis by (simp add: interpret_score_Num)
next
  case False
  then have "of_int 5000 \<le> (1 - x) * 100 * 100" by simp
  then have "50 \<le> round2 ((1 - x) * 100)" using round2_bounds(1) [of 5000 "(1 - x) * 100"] by simp
  with False show ?thesis by (simp add: interpret_score_Num)
qed

text \<open>C5: a score in [0, 1] gets a confidence of at most 100.\<close>

theorem interpret_confidence_le_100:
  assumes "0 \<le> x" and "x \<le> 1"
  shows "\<exists>p. confidence (interpret_score (Num x)) = Num p \<and> p \<le> 100"
proof (cases "1 / 2 < x")
  case True
  with assms have "x * 100 * 100 \<le> of_int 10000" by simp
  then have "round2 (x * 100) \<le> 100" using round2_bounds(2) [of "x * 100" 10000] by simp
  with True show ?thesis by (simp add: interpret_score_Num)
next
  case False
  with assms have "(1 - x) * 100 * 100 \<le> of_int 10000" by simp
  then have "round2 ((1 - x) * 100) \<le> 100" using round2_bounds(2) [of "(1 - x) * 100" 10000] by simp
  with False show ?thesis by (simp add: interpret_score_Num)
qed

text \<open>
  C6: the confidence has at most two decimals and differs from the exact percentage by
  at most 0.005.
\<close>

theorem interpret_rounding:
  "\<exists>p cents. confidence (interpret_score (Num x)) = Num p \<and> p * 100 = of_int cents \<and>
     \<bar>p - (if 1 / 2 < x then x else 1 - x) * 100\<bar> \<le> 1 / 200"
proof (cases "1 / 2 < x")
  case True
  have "\<bar>round2 (x * 100) - x * 100\<bar> \<le> 1 / 200" by (rule round2_error)
  with True show ?thesis by (simp add: interpret_score_Num round2_cents)
next
  case False
  have "\<bar>round2 ((1 - x) * 100) - (1 - x) * 100\<bar> \<le> 1 / 200" by (rule round2_error)
  with False show ?thesis by (simp add: interpret_score_Num round2_cents)
qed

theorem interpret_symmetry_witness:
  "(3 / 10 :: real) \<noteq> 1 / 2 \<and>
   diagnosis (interpret_score (Num (1 - 3 / 10))) \<noteq> diagnosis (interpret_score (Num (3 / 10))) \<and>
   confidence (interpret_score (Num (1 - 3 / 10))) = confidence (interpret_score (Num (3 / 10)))"
  using interpret_symmetry [of "3 / 10"] by simp

theorem interpret_confidence_le_100_witness:
  "(0::real) \<le> 1 / 4 \<and> (1 / 4 :: real) \<le> 1 \<and>
   (\<exists>p. confidence (interpret_score (Num (1 / 4))) = Num p \<and> p \<le> 100)"
  using interpret_confidence_le_100 [of "1 / 4"] by simp

end
