(* ===== verification/Inference.thy ===== *)
theory Inference
  imports Image_Normalizer Tensor_Store Result_Interpreter
begin

text \<open>
  The per-request pipeline of \<open>src/server.js\<close>: \<open>preprocessImage\<close> (lines 58--91)
  decodes and resizes the image with Jimp, converts it with the loop of
  \<open>Image_Normalizer\<close> and wraps it in a \<open>[1, 224, 224, 3]\<close> tensor;
  \<open>makePrediction\<close> (lines 94--124) checks the load flag, runs the model, reads the
  score, disposes of the input and output tensors and interprets the score;
  \<open>run_pipeline\<close> is the two calls in sequence as both prediction routes make them
  (lines 176--180 and 216--220). Every function returns the tensor store it leaves
  behind together with the result, on the error paths too, since that is where the
  store differs. Each \<open>catch\<close> of the code replaces the error by a fixed message,
  which \<open>pipeline_error\<close> records. Jimp enters as a parameter (\<open>jimp\<close>: its
  decoder and its resize); \<open>jimp_ok\<close> is what the code relies on from it.
\<close>

datatype pipeline_error = ProcessingError | PredictionError

text \<open>The messages of the errors thrown at lines 89 and 122 (UTF-8 bytes for the
  accented letter).\<close>

fun error_message :: "pipeline_error \<Rightarrow> string" where
  "error_message ProcessingError = ''Error al procesar la imagen''"
| "error_message PredictionError =
     ''Error al realizar la predicci'' @ [CHR 0xC3, CHR 0xB3] @ ''n''"

record jimp =
  jimp_read :: "byte list \<Rightarrow> bitmap option"
  jimp_resize :: "nat \<Rightarrow> nat \<Rightarrow> bitmap \<Rightarrow> bitmap"

text \<open>Jimp's contract as the code uses it: \<open>resize(w, h)\<close> yields a \<open>w x h\<close> bitmap with
  four bytes per pixel.\<close>

definition jimp_ok :: "jimp \<Rightarrow> bool" where
  "jimp_ok J \<longleftrightarrow>
     (\<forall>w h img. width (jimp_resize J w h img) = w \<and> height (jimp_resize J w h img) = h \<and>
                bitmap_ok (jimp_resize J w h img))"

text \<open>Lines 58--91.\<close>

definition preprocessImage :: "jimp \<Rightarrow> engine \<Rightarrow> byte list \<Rightarrow> engine \<times> (pipeline_error + nat)" where
  "preprocessImage J e imageBuffer =
     (case jimp_read J imageBuffer of
        None \<Rightarrow> (e, Inl ProcessingError)
      | Some img \<Rightarrow>
          (let img' = jimp_resize J 224 224 img;
               rgbData = to_rgb img'
           in case tensor3d e rgbData [224, 224, 3] of
                Inl _ \<Rightarrow> (e, Inl ProcessingError)
              | Inr (e1, t3) \<Rightarrow>
                  (case expand_dims e1 t3 0 of
                     Inl _ \<Rightarrow> (e1, Inl ProcessingError)
                   | Inr (e2, imageTensor) \<Rightarrow> (e2, Inr imageTensor))))"

text \<open>Lines 94--124, with the globals \<open>isModelLoaded\<close> and \<open>model\<close> as parameters
  (\<open>None\<close>: \<open>model\<close> still \<open>undefined\<close>).\<close>

definition makePrediction ::
  "bool \<Rightarrow> graph_model option \<Rightarrow> engine \<Rightarrow> nat \<Rightarrow> engine \<times> (pipeline_error + prediction)" where
  "makePrediction isModelLoaded model e imageTensor =
     (if \<not> isModelLoaded then (e, Inl PredictionError)
      else case model of
        None \<Rightarrow> (e, Inl PredictionError)
      | Some m \<Rightarrow>
          (case graph_predict m e imageTensor of
             Inl _ \<Rightarrow> (e, Inl PredictionError)
           | Inr (e1, prediction) \<Rightarrow>
               (case data_sync e1 prediction of
                  Inl _ \<Rightarrow> (e1, Inl PredictionError)
                | Inr predictionData \<Rightarrow>
                    (let e2 = dispose e1 imageTensor;
                         e3 = dispose e2 prediction
                     in (e3, Inr (interpret_score (js_index predictionData 0)))))))"

text \<open>Lines 176--180 (and 216--220): preprocess, then predict.\<close>

definition run_pipeline ::
  "jimp \<Rightarrow> bool \<Rightarrow> graph_model option \<Rightarrow> engine \<Rightarrow> byte list \<Rightarrow> engine \<times> (pipeline_error + prediction)" where
  "run_pipeline J isModelLoaded model e imageBuffer =
     (case preprocessImage J e imageBuffer of
        (e1, Inl err) \<Rightarrow> (e1, Inl err)
      | (e1, Inr imageTensor) \<Rightarrow> makePrediction isModelLoaded model e1 imageTensor)"

text \<open>A model that accepts the tensor the code builds.\<close>

definition model_accepts :: "graph_model \<Rightarrow> bool" where
  "model_accepts m \<longleftrightarrow> shape_compatible (inputShape m) [1, 224, 224, 3]"

text \<open>The normalised input the code hands to the model for a decoded image.\<close>

definition normalized_input :: "jimp \<Rightarrow> bitmap \<Rightarrow> jsnum list" where
  "normalized_input J img = to_rgb (jimp_resize J 224 224 img)"

text \<open>Fixtures for the witnesses: a Jimp whose resize paints a grey bitmap of the asked
  size, and a model with input \<open>[-1, 224, 224, 3]\<close> that scores every image 0.9.\<close>

definition demo_bitmap :: bitmap where
  "demo_bitmap = \<lparr>width = 1, height = 1, bdata = [0, 0, 0, 255]\<rparr>"

definition demo_jimp :: jimp where
  "demo_jimp = \<lparr>jimp_read = (\<lambda>bs. if bs = [] then None else Some demo_bitmap),
                jimp_resize = (\<lambda>w h img. \<lparr>width = w, height = h, bdata = replicate (4 * (w * h)) 128\<rparr>)\<rparr>"

definition demo_model :: graph_model where
  "demo_model = \<lparr>inputShape = [-1, 224, 224, 3], forward = (\<lambda>vs. [Num (9 / 10)]), outputShape = [1, 1]\<rparr>"

subsection \<open>Closed forms of the pipeline\<close>

lemma length_normalized_input:
  "jimp_ok J \<Longrightarrow> length (normalized_input J img) = 224 * 224 * 3"
  by (simp add: normalized_input_def length_to_rgb jimp_ok_def)

lemma normalized_input_reference:
  "jimp_ok J \<Longrightarrow> normalized_input J img = map Num (rgba_to_rgb (bdata (jimp_resize J 224 224 img)))"
  by (simp add: normalized_input_def jimp_ok_def to_rgb_reference)

lemma preprocessImage_ok:
  assumes J: "jimp_ok J" and rd: "jimp_read J buf = Some img"
  shows "preprocessImage J e buf =
    (e\<lparr>tensors := (tensors e)(next_id e \<mapsto> \<lparr>tshape = [224, 224, 3], tdata = next_id e\<rparr>,
                             Suc (next_id e) \<mapsto> \<lparr>tshape = [1, 224, 224, 3], tdata = Suc (next_id e)\<rparr>),
       buffers := (buffers e)(next_id e \<mapsto> (normalized_input J img, 1),
                              Suc (next_id e) \<mapsto> (normalized_input J img, 1)),
       next_id := Suc (Suc (next_id e))\<rparr>, Inr (Suc (next_id e)))"
  using length_normalized_input [OF J, of img] rd
  by (simp add: preprocessImage_def tensor3d_def alloc_tensor_def expand_dims_def
      normalized_input_def Let_def)

lemma card_dom_two_fresh:
  assumes "finite (dom m)" and "m a = None" and "m (Suc a) = None"
  shows "card (dom (m(a \<mapsto> x, Suc a \<mapsto> y))) = card (dom m) + 2"
  using assms by (simp add: domIff)

lemma preprocessImage_ok_counts:
  assumes wf: "engine_wf e" and J: "jimp_ok J" and rd: "jimp_read J buf = Some img"
  shows "num_tensors (fst (preprocessImage J e buf)) = num_tensors e + 2 \<and>
         num_buffers (fst (preprocessImage J e buf)) = num_buffers e + 2"
proof -
  have fr: "tensors e (next_id e) = None \<and> buffers e (next_id e) = None"
    "tensors e (Suc (next_id e)) = None \<and> buffers e (Suc (next_id e)) = None"
    using engine_wf_fresh_above [OF wf] by simp_all
  show ?thesis
    using fr card_dom_two_fresh [OF engine_wf_finite [OF wf]]
      card_dom_two_fresh [OF engine_wf_finite_buffers [OF wf]]
    by (simp add: preprocessImage_ok [OF J rd] num_tensors_def num_buffers_def)
qed

lemma run_pipeline_ok:
  assumes wf: "engine_wf e" and J: "jimp_ok J" and rd: "jimp_read J buf = Some img"
    and acc: "model_accepts m"
  shows "run_pipeline J True (Some m) e buf =
    (e\<lparr>tensors := (tensors e)(next_id e \<mapsto> \<lparr>tshape = [224, 224, 3], tdata = next_id e\<rparr>),
       buffers := (buffers e)(next_id e \<mapsto> (normalized_input J img, 1)),
       next_id := next_id e + 3\<rparr>,
     Inr (interpret_score (js_index (forward m (normalized_input J img)) 0)))"
proof -
  let ?n = "next_id e"
  have f1: "tensors e (Suc ?n) = None" "buffers e (Suc ?n) = None"
    using engine_wf_fresh_above [OF wf, of "Suc ?n"] by simp_all
  have f2: "tensors e (Suc (Suc ?n)) = None" "buffers e (Suc (Suc ?n)) = None"
    using engine_wf_fresh_above [OF wf, of "Suc (Suc ?n)"] by simp_all
  have sc: "shape_compatible (inputShape m) [1, 224, 224, 3]"
    using acc by (simp add: model_accepts_def)
  show ?thesis
    using f1 f2 sc
    by (simp add: run_pipeline_def preprocessImage_ok [OF J rd] makePrediction_def
        graph_predict_def data_sync_def dispose_def alloc_tensor_def Let_def
        fun_upd_twist fun_upd_idem)
qed

lemma run_pipeline_rejected:
  assumes J: "jimp_ok J" and rd: "jimp_read J buf = Some img"
    and rej: "\<not> model_accepts m"
  shows "run_pipeline J True (Some m) e buf = (fst (preprocessImage J e buf), Inl PredictionError)"
  using rej
  by (simp add: run_pipeline_def preprocessImage_ok [OF J rd] makePrediction_def
      graph_predict_def model_accepts_def)

lemma preprocessImage_wf:
  "engine_wf e \<Longrightarrow> engine_wf (fst (preprocessImage J e buf))"
  by (auto simp: preprocessImage_def Let_def intro: tensor3d_wf expand_dims_wf
      split: option.split sum.split)

lemma makePrediction_wf:
  "engine_wf e \<Longrightarrow> engine_wf (fst (makePrediction loaded model e t))"
  by (auto simp: makePrediction_def Let_def intro: graph_predict_wf dispose_wf
      split: option.split sum.split)

lemma demo_facts:
  "jimp_ok demo_jimp" "jimp_read demo_jimp [1] = Some demo_bitmap" "jimp_read demo_jimp [] = None"
  "model_accepts demo_model"
  by (simp_all add: jimp_ok_def demo_jimp_def bitmap_ok_def model_accepts_def demo_model_def
      shape_compatible_def)

lemma run_pipeline_wf:
  assumes "engine_wf e"
  shows "engine_wf (fst (run_pipeline J loaded model e buf))"
proof (cases "preprocessImage J e buf")
  case (Pair e1 r)
  have wf1: "engine_wf e1" using preprocessImage_wf [OF assms, of J buf] Pair by simp
  show ?thesis
  proof (cases r)
    case (Inl err)
    with Pair wf1 show ?thesis by (simp add: run_pipeline_def)
  next
    case (Inr t)
    with Pair makePrediction_wf [OF wf1] show ?thesis by (simp add: run_pipeline_def)
  qed
qed

lemma run_pipeline_result_store_free:
  "snd (run_pipeline J loaded model e1 buf) = snd (run_pipeline J loaded model e2 buf)"
  by (auto simp: run_pipeline_def preprocessImage_def tensor3d_def alloc_tensor_def
      expand_dims_def makePrediction_def graph_predict_def data_sync_def Let_def
      split: option.split)

lemma run_pipeline_ok_counts:
  assumes "engine_wf e" and "jimp_ok J" and "jimp_read J buf = Some img" and "model_accepts m"
  shows "num_tensors (fst (run_pipeline J True (Some m) e buf)) = Suc (num_tensors e) \<and>
         num_buffers (fst (run_pipeline J True (Some m) e buf)) = Suc (num_buffers e)"
proof -
  have fr: "tensors e (next_id e) = None" "buffers e (next_id e) = None"
    using engine_wf_fresh_above [OF assms(1), of "next_id e"] by simp_all
  show ?thesis
    using run_pipeline_ok [OF assms] fr card_dom_fresh [OF engine_wf_finite [OF assms(1)]]
      card_dom_fresh [OF engine_wf_finite_buffers [OF assms(1)]]
    by (simp add: num_tensors_def num_buffers_def)
qed

subsection \<open>Properties\<close>

text \<open>
  C8: bytes Jimp cannot decode fail with the processing error, before any tensor is
  made and without the model being run: the store is returned unchanged and the result
  is the same whatever the model and the load flag.
\<close>

theorem run_pipeline_decode_error:
  assumes "jimp_read J buf = None"
  shows "run_pipeline J loaded model e buf = (e, Inl ProcessingError)"
  using assms by (simp add: run_pipeline_def preprocessImage_def)

theorem run_pipeline_decode_error_witness:
  "jimp_read demo_jimp [] = None \<and>
   run_pipeline demo_jimp True (Some demo_model) empty_engine [] = (empty_engine, Inl ProcessingError)"
  by (rule conjI [OF demo_facts(3) run_pipeline_decode_error [OF demo_facts(3)]])

text \<open>
  C9: end to end, a decodable image with a loaded model that accepts
  \<open>[1, 224, 224, 3]\<close> is diagnosed by interpreting the first output of the model
  applied to the normalised resized image: 224 * 224 * 3 values, each the colour
  byte divided by 255 and so in [0, 1].
\<close>

theorem run_pipeline_diagnosis:
  assumes "engine_wf e" and "jimp_ok J" and "jimp_read J buf = Some img" and "model_accepts m"
  shows "snd (run_pipeline J True (Some m) e buf) =
           Inr (interpret_score (js_index (forward m (map Num (rgba_to_rgb (bdata (jimp_resize J 224 224 img))))) 0)) \<and>
         length (rgba_to_rgb (bdata (jimp_resize J 224 224 img))) = 224 * 224 * 3 \<and>
         (\<forall>v \<in> set (rgba_to_rgb (bdata (jimp_resize J 224 224 img))). 0 \<le> v \<and> v \<le> 1)"
proof -
  have "length (map Num (rgba_to_rgb (bdata (jimp_resize J 224 224 img)))) = 224 * 224 * 3"
    using length_normalized_input [OF assms(2), of img] normalized_input_reference [OF assms(2)]
    by simp
  then show ?thesis
    using run_pipeline_ok [OF assms] normalized_input_reference [OF assms(2)] rgba_to_rgb_bounds
    by simp
qed

theorem run_pipeline_diagnosis_witness:
  "engine_wf empty_engine \<and> jimp_ok demo_jimp \<and> jimp_read demo_jimp [1] = Some demo_bitmap \<and>
   model_accepts demo_model \<and>
   snd (run_pipeline demo_jimp True (Some demo_model) empty_engine [1]) =
     Inr \<lparr>diagnosis = Maligno, confidence = Num 90, rawPrediction = Num (9 / 10)\<rparr>"
  using engine_wf_empty demo_facts(1,2,4)
    run_pipeline_diagnosis [OF engine_wf_empty demo_facts(1,2,4), THEN conjunct1]
  by (simp add: demo_model_def interpret_score_Num round2_def js_simps)

text \<open>
  C10: a successful request leaves one tensor and one data buffer behind: the 3-D
  tensor made by \<open>tf.tensor3d\<close> (line 83) is never disposed, since only its
  \<open>expandDims\<close> copy and the prediction are (lines 105--106). \<open>numTensors\<close> and
  \<open>numDataBuffers\<close> grow by one per request.
\<close>

theorem run_pipeline_leaks_input_tensor:
  assumes "engine_wf e" and "jimp_ok J" and "jimp_read J buf = Some img" and "model_accepts m"
  shows "tensors (fst (run_pipeline J True (Some m) e buf)) =
           (tensors e)(next_id e \<mapsto> \<lparr>tshape = [224, 224, 3], tdata = next_id e\<rparr>) \<and>
         num_tensors (fst (run_pipeline J True (Some m) e buf)) = Suc (num_tensors e) \<and>
         num_buffers (fst (run_pipeline J True (Some m) e buf)) = Suc (num_buffers e)"
  using run_pipeline_ok [OF assms] run_pipeline_ok_counts [OF assms] by simp

theorem run_pipeline_leaks_input_tensor_witness:
  "engine_wf empty_engine \<and> jimp_ok demo_jimp \<and> jimp_read demo_jimp [1] = Some demo_bitmap \<and>
   model_accepts demo_model \<and>
   (tensors (fst (run_pipeline demo_jimp True (Some demo_model) empty_engine [1])) =
      (tensors empty_engine)(next_id empty_engine \<mapsto> \<lparr>tshape = [224, 224, 3], tdata = next_id empty_engine\<rparr>) \<and>
    num_tensors (fst (run_pipeline demo_jimp True (Some demo_model) empty_engine [1])) =
      Suc (num_tensors empty_engine) \<and>
    num_buffers (fst (run_pipeline demo_jimp True (Some demo_model) empty_engine [1])) =
      Suc (num_buffers empty_engine))"
  using engine_wf_empty demo_facts(1,2,4)
    run_pipeline_leaks_input_tensor [OF engine_wf_empty demo_facts(1,2,4)]
  by blast

text \<open>
  C11: when the model rejects the input shape, \<open>model.predict\<close> throws, the request
  fails with the prediction error, and both tensors of the request stay allocated, each
  on its own data buffer: two more live tensors and two more buffers.
\<close>

theorem run_pipeline_rejected_leaks:
  assumes "engine_wf e" and "jimp_ok J" and "jimp_read J buf = Some img" and "\<not> model_accepts m"
  shows "snd (run_pipeline J True (Some m) e buf) = Inl PredictionError \<and>
         num_tensors (fst (run_pipeline J True (Some m) e buf)) = num_tensors e + 2 \<and>
         num_buffers (fst (run_pipeline J True (Some m) e buf)) = num_buffers e + 2"
  using run_pipeline_rejected [OF assms(2,3,4)] preprocessImage_ok_counts [OF assms(1,2,3)] by simp

theorem run_pipeline_rejected_leaks_witness:
  "engine_wf empty_engine \<and> jimp_ok demo_jimp \<and> jimp_read demo_jimp [1] = Some demo_bitmap \<and>
   \<not> model_accepts (demo_model\<lparr>inputShape := [-1, 3]\<rparr>) \<and>
   (snd (run_pipeline demo_jimp True (Some (demo_model\<lparr>inputShape := [-1, 3]\<rparr>)) empty_engine [1]) =
      Inl PredictionError \<and>
    num_tensors (fst (run_pipeline demo_jimp True (Some (demo_model\<lparr>inputShape := [-1, 3]\<rparr>)) empty_engine [1])) =
      num_tensors empty_engine + 2 \<and>
    num_buffers (fst (run_pipeline demo_jimp True (Some (demo_model\<lparr>inputShape := [-1, 3]\<rparr>)) empty_engine [1])) =
      num_buffers empty_engine + 2)"
proof -
  have rej: "\<not> model_accepts (demo_model\<lparr>inputShape := [-1, 3]\<rparr>)"
    by (simp add: model_accepts_def shape_compatible_def)
  show ?thesis
    using engine_wf_empty demo_facts(1,2) rej
      run_pipeline_rejected_leaks [OF engine_wf_empty demo_facts(1,2) rej]
    by blast
qed

end
