(* ===== verification/Http_Handlers.thy ===== *)
theory Http_Handlers
  imports Inference
begin

text \<open>
  The Express layer of \<open>src/server.js\<close>: the server's global state (\<open>model\<close>,
  \<open>isModelLoaded\<close>, and the TensorFlow.js store the handlers share), the route handlers
  \<open>POST /predict\<close> (lines 145--197), \<open>POST /predict/upload\<close> (lines 200--237),
  \<open>GET /health\<close> (127--133) and \<open>GET /model/status\<close> (136--142), the 404 fallback
  (240--245) and the global error handler (248--254), composed by \<open>dispatch\<close> in
  the order Express runs them: the body parsers (\<open>express.json\<close> with its 50 MB limit,
  lines 13--14), the routes with multer's 10 MB file limit on the upload route
  (lines 17--21), then the fallbacks. A request carries what the code reads of it:
  method, path, and the parsed body (the value of the JSON \<open>image\<close> field, or the
  multipart \<open>image\<close> file). Responses are a status code and the JSON payload without
  the timestamp. Node's base64 decoder is a parameter (\<open>libs\<close>), as Jimp is.
\<close>

text \<open>JSON values as \<open>express.json\<close> produces them.\<close>

datatype jsval =
    JUndefined | JNull | JBool bool | JNumber real | JString string
  | JArray "jsval list" | JObject "(string \<times> jsval) list"

text \<open>JavaScript truthiness (\<open>!image\<close>); JSON has no \<open>NaN\<close>.\<close>

fun js_truthy :: "jsval \<Rightarrow> bool" where
  "js_truthy JUndefined = False"
| "js_truthy JNull = False"
| "js_truthy (JBool b) = b"
| "js_truthy (JNumber x) = (x \<noteq> 0)"
| "js_truthy (JString s) = (s \<noteq> [])"
| "js_truthy (JArray xs) = True"
| "js_truthy (JObject kvs) = True"

text \<open>\<open>image.replace(/^data:image\/[a-z]+;base64,/, '')\<close> (line 167): removes the
  data-URL prefix when the string starts with one.\<close>

definition is_lower_ascii :: "char \<Rightarrow> bool" where
  "is_lower_ascii c \<longleftrightarrow> (97::nat) \<le> of_char c \<and> of_char c \<le> (122::nat)"

definition strip_data_prefix :: "string \<Rightarrow> string" where
  "strip_data_prefix s =
     (if take 11 s = ''data:image/''
      then (let rest = drop 11 s;
                sub = takeWhile is_lower_ascii rest;
                after = drop (length sub) rest
            in if sub \<noteq> [] \<and> take 8 after = '';base64,'' then drop 8 after else s)
      else s)"

text \<open>UTF-8 bytes of the accented letters of the Spanish messages.\<close>

definition a_acute :: string where "a_acute = [CHR 0xC3, CHR 0xA1]"
definition o_acute :: string where "o_acute = [CHR 0xC3, CHR 0xB3]"
definition u_acute :: string where "u_acute = [CHR 0xC3, CHR 0xBA]"

datatype payload =
    HealthBody bool
  | StatusBody bool "string list"
  | SuccessBody string jsnum
  | ErrorBody string string
  | NoBody

record response =
  status :: nat
  payload :: payload

text \<open>The global state of the process (lines 24--25) and the shared tensor store.\<close>

record server =
  model :: "graph_model option"
  isModelLoaded :: bool
  store :: engine

record libs =
  jimp_lib :: jimp
  base64_decode :: "string \<Rightarrow> byte list"

definition model_unavailable :: response where
  "model_unavailable =
     \<lparr>status = 503, payload = ErrorBody ''Modelo no disponible''
        (''El modelo a'' @ u_acute @ ''n se est'' @ a_acute @ '' cargando o fall'' @ o_acute @ '' al cargar'')\<rparr>"

definition internal_error :: "pipeline_error \<Rightarrow> response" where
  "internal_error err = \<lparr>status = 500, payload = ErrorBody ''Error interno del servidor'' (error_message err)\<rparr>"

definition unexpected_error :: response where
  "unexpected_error = \<lparr>status = 500, payload = ErrorBody ''Error interno del servidor'' ''Ha ocurrido un error inesperado''\<rparr>"

definition not_found :: response where
  "not_found = \<lparr>status = 404, payload = ErrorBody ''Endpoint no encontrado'' ''La ruta solicitada no existe''\<rparr>"

text \<open>Lines 176--188 (and 216--228): run the pipeline on the bytes and answer.\<close>

definition answer_pipeline :: "libs \<Rightarrow> server \<Rightarrow> byte list \<Rightarrow> server \<times> response" where
  "answer_pipeline L S imageBuffer =
     (case run_pipeline (jimp_lib L) (isModelLoaded S) (model S) (store S) imageBuffer of
        (e', Inl err) \<Rightarrow> (S\<lparr>store := e'\<rparr>, internal_error err)
      | (e', Inr r) \<Rightarrow> (S\<lparr>store := e'\<rparr>,
            \<lparr>status = 200, payload = SuccessBody (diagnosis_name (diagnosis r)) (confidence r)\<rparr>))"

text \<open>\<open>POST /predict\<close>, lines 145--197, given the value of \<open>req.body.image\<close>.\<close>

definition predict_handler :: "libs \<Rightarrow> server \<Rightarrow> jsval \<Rightarrow> server \<times> response" where
  "predict_handler L S img =
     (if \<not> isModelLoaded S then (S, model_unavailable)
      else if \<not> js_truthy img then
        (S, \<lparr>status = 400, payload = ErrorBody ''Imagen requerida''
               ''Debe proporcionar una imagen en formato base64''\<rparr>)
      else case img of
        JString s \<Rightarrow> answer_pipeline L S (base64_decode L (strip_data_prefix s))
      | _ \<Rightarrow> (S, \<lparr>status = 400, payload = ErrorBody (''Formato de imagen inv'' @ a_acute @ ''lido'')
                   (''La imagen debe estar en formato base64 v'' @ a_acute @ ''lido'')\<rparr>))"

text \<open>\<open>POST /predict/upload\<close>, lines 200--237, given \<open>req.file\<close>.\<close>

definition upload_handler :: "libs \<Rightarrow> server \<Rightarrow> byte list option \<Rightarrow> server \<times> response" where
  "upload_handler L S file =
     (if \<not> isModelLoaded S then (S, model_unavailable)
      else case file of
        None \<Rightarrow> (S, \<lparr>status = 400, payload = ErrorBody ''Archivo requerido''
                       ''Debe proporcionar un archivo de imagen''\<rparr>)
      | Some buf \<Rightarrow> answer_pipeline L S buf)"

text \<open>
  Requests. The body is what the parsers make of it: a JSON body with its size in bytes
  and the value of its \<open>image\<close> field; a URL-encoded body with its size, the number of
  \<open>&\<close> separators in it, and the value of its \<open>image\<close> field; a body a parser rejects
  for its content (malformed JSON, a JSON body that is not an object or array, an
  unsupported charset or content encoding, nesting deeper than the parser allows); a
  multipart body with its file parts (field name and content); or anything else
  (\<open>req.body\<close> is then \<open>{}\<close>).
\<close>

datatype http_method = GET | HEAD | POST | OtherMethod string

datatype body =
    JsonBody nat jsval
  | UrlencodedBody nat nat jsval
  | RejectedBody
  | MultipartBody "(string \<times> byte list) list"
  | OtherBody

record request =
  req_method :: http_method
  path :: string
  body :: body

text \<open>\<open>limit: '50mb'\<close> of lines 13--14 and multer's \<open>fileSize\<close> of line 19, in bytes.\<close>

definition body_limit :: nat where
  "body_limit = 50 * 1024 * 1024"

definition file_limit :: nat where
  "file_limit = 10 * 1024 * 1024"

text \<open>The body parsers fail (and the global error handler answers) on a body over the
  limit, on a URL-encoded body with 1000 or more \<open>&\<close> separators (body-parser's
  \<open>parameterLimit\<close> of 1000 parameters, a 413 error), and on a body they reject for
  its content.\<close>

definition parameter_limit :: nat where
  "parameter_limit = 1000"


fun body_parse_error :: "body \<Rightarrow> bool" where
  "body_parse_error (JsonBody n v) = (body_limit < n)"
| "body_parse_error (UrlencodedBody n amps v) = (body_limit < n \<or> parameter_limit \<le> amps)"
| "body_parse_error RejectedBody = True"
| "body_parse_error (MultipartBody f) = False"
| "body_parse_error OtherBody = False"

text \<open>\<open>req.body.image\<close>.\<close>

fun image_field :: "body \<Rightarrow> jsval" where
  "image_field (JsonBody n v) = v"
| "image_field (UrlencodedBody n amps v) = v"
| "image_field _ = JUndefined"

text \<open>\<open>upload.single('image')\<close> (lines 17--21 and 200): a file part under another
  field name, a second file, or a file over the limit is an error passed to \<open>next\<close>
  (\<open>Inl\<close>); otherwise \<open>req.file\<close> is the one file, or undefined. Bodies that are not
  multipart pass through with no file.\<close>

fun upload_file :: "body \<Rightarrow> unit + byte list option" where
  "upload_file (MultipartBody fs) =
     (if list_ex (\<lambda>(name, f). name \<noteq> ''image'' \<or> file_limit < length f) fs \<or> 1 < length fs
      then Inl ()
      else Inr (case fs of [] \<Rightarrow> None | (_, f) # _ \<Rightarrow> Some f))"
| "upload_file _ = Inr None"

text \<open>Express route matching with its defaults: case-insensitive and not strict, so
  one trailing slash is allowed.\<close>

definition ascii_lower :: "char \<Rightarrow> char" where
  "ascii_lower c =
     (if (65::nat) \<le> of_char c \<and> of_char c \<le> (90::nat) then char_of (of_char c + (32::nat)) else c)"

definition route_matches :: "string \<Rightarrow> string \<Rightarrow> bool" where
  "route_matches route p \<longleftrightarrow> map ascii_lower p = route \<or> map ascii_lower p = route @ ''/''"

definition is_get :: "http_method \<Rightarrow> bool" where
  "is_get m \<longleftrightarrow> m = GET \<or> m = HEAD"

text \<open>The whole application of lines 11--254 on one request: \<open>cors()\<close>, which ends
  every \<open>OPTIONS\<close> preflight with 204 and otherwise only adds headers, the body parsers,
  the four routes in their order (multer before the upload handler), the 404 fallback,
  and the global error handler for every error passed to \<open>next\<close>.\<close>

definition dispatch :: "libs \<Rightarrow> server \<Rightarrow> request \<Rightarrow> server \<times> response" where
  "dispatch L S req =
     (if req_method req = OtherMethod ''OPTIONS'' then (S, \<lparr>status = 204, payload = NoBody\<rparr>)
      else if body_parse_error (body req) then (S, unexpected_error)
      else if is_get (req_method req) \<and> route_matches ''/health'' (path req) then
        (S, \<lparr>status = 200, payload = HealthBody (isModelLoaded S)\<rparr>)
      else if is_get (req_method req) \<and> route_matches ''/model/status'' (path req) then
        (S, \<lparr>status = 200, payload = StatusBody (isModelLoaded S) classNames\<rparr>)
      else if req_method req = POST \<and> route_matches ''/predict'' (path req) then
        predict_handler L S (image_field (body req))
      else if req_method req = POST \<and> route_matches ''/predict/upload'' (path req) then
        (case upload_file (body req) of
           Inl _ \<Rightarrow> (S, unexpected_error)
         | Inr file \<Rightarrow> upload_handler L S file)
      else (S, not_found))"

text \<open>Fixtures for the witnesses: a decoder that reads \<open>AA==\<close> as one zero byte
  and every other string as no bytes, and a server with the demo model loaded.\<close>

definition demo_libs :: libs where
  "demo_libs = \<lparr>jimp_lib = demo_jimp, base64_decode = (\<lambda>s. if s = ''AA=='' then [0] else [])\<rparr>"

definition demo_server :: server where
  "demo_server = \<lparr>model = Some demo_model, isModelLoaded = True, store = empty_engine\<rparr>"

subsection \<open>Dispatch lemmas\<close>

lemma strip_data_prefix_url:
  assumes "sub \<noteq> []" and "\<forall>c \<in> set sub. is_lower_ascii c"
  shows "strip_data_prefix (''data:image/'' @ sub @ '';base64,'' @ rest) = rest"
proof -
  have tw: "\<And>more. takeWhile is_lower_ascii (sub @ CHR '';'' # more) = sub"
    using assms(2) by (simp add: takeWhile_append2 is_lower_ascii_def)
  show ?thesis using assms(1) by (simp add: strip_data_prefix_def tw Let_def)
qed

lemma strip_data_prefix_unmatched:
  assumes "\<not> list_all is_lower_ascii sub" and "CHR '';'' \<notin> set sub"
  shows "strip_data_prefix (''data:image/'' @ sub @ '';base64,'' @ rest) = ''data:image/'' @ sub @ '';base64,'' @ rest"
proof -
  obtain xs c ys where sub: "sub = xs @ c # ys" and xs: "list_all is_lower_ascii xs" and c: "\<not> is_lower_ascii c"
  proof -
    let ?xs = "takeWhile is_lower_ascii sub"
    have "?xs \<noteq> sub" using assms(1) by (metis list_all_iff set_takeWhileD takeWhile_eq_all_conv)
    then obtain c ys where d: "dropWhile is_lower_ascii sub = c # ys"
      by (cases "dropWhile is_lower_ascii sub") (simp_all add: takeWhile_dropWhile_id)
    have "sub = ?xs @ c # ys" using d takeWhile_dropWhile_id [of is_lower_ascii sub] by simp
    moreover have "list_all is_lower_ascii ?xs" by (simp add: list_all_iff) (meson set_takeWhileD)
    moreover have "\<not> is_lower_ascii c" using d by (metis dropWhile_eq_Cons_conv)
    ultimately show ?thesis using that by blast
  qed
  have cs: "c \<noteq> CHR '';''" using assms(2) sub by auto
  let ?r = "sub @ '';base64,'' @ rest"
  have t11: "take 11 (''data:image/'' @ ?r) = ''data:image/''" and d11: "drop 11 (''data:image/'' @ ?r) = ?r"
    by simp_all
  have tw: "takeWhile is_lower_ascii ?r = xs"
    using xs c by (simp add: sub takeWhile_append2 list_all_iff)
  have after: "drop (length xs) ?r = c # ys @ '';base64,'' @ rest" by (simp add: sub)
  have ne: "take 8 (c # ys @ '';base64,'' @ rest) \<noteq> '';base64,''" using cs by simp
  show ?thesis
    unfolding strip_data_prefix_def Let_def t11 d11 tw after by (simp only: ne simp_thms if_True if_False)
qed

lemma predict_upload_distinct:
  "route_matches ''/predict'' p \<Longrightarrow> \<not> route_matches ''/predict/upload'' p"
  "route_matches ''/predict/upload'' p \<Longrightarrow> \<not> route_matches ''/predict'' p"
  by (auto simp: route_matches_def)

lemma dispatch_predict:
  "\<not> body_parse_error (body req) \<Longrightarrow> req_method req = POST \<Longrightarrow> route_matches ''/predict'' (path req) \<Longrightarrow>
   dispatch L S req = predict_handler L S (image_field (body req))"
  by (simp add: dispatch_def is_get_def)

lemma dispatch_upload:
  "\<not> body_parse_error (body req) \<Longrightarrow> req_method req = POST \<Longrightarrow> route_matches ''/predict/upload'' (path req) \<Longrightarrow>
   dispatch L S req =
     (case upload_file (body req) of
        Inl _ \<Rightarrow> (S, unexpected_error)
      | Inr file \<Rightarrow> upload_handler L S file)"
  using predict_upload_distinct(2) by (simp add: dispatch_def is_get_def)

lemma answer_pipeline_state:
  "fst (answer_pipeline L S b) = S\<lparr>store := fst (run_pipeline (jimp_lib L) (isModelLoaded S) (model S) (store S) b)\<rparr>"
  by (simp add: answer_pipeline_def split: prod.split sum.split)

lemma dispatch_state:
  "fst (dispatch L S req) = S \<or> (\<exists>b. fst (dispatch L S req) = fst (answer_pipeline L S b))"
  by (auto simp: dispatch_def predict_handler_def upload_handler_def split: jsval.split sum.split option.split)

lemma dispatch_frame:
  "model (fst (dispatch L S req)) = model S \<and> isModelLoaded (fst (dispatch L S req)) = isModelLoaded S"
  using dispatch_state [of L S req] by (auto simp: answer_pipeline_state)

lemma dispatch_wf:
  "engine_wf (store S) \<Longrightarrow> engine_wf (store (fst (dispatch L S req)))"
  using dispatch_state [of L S req] by (auto simp: answer_pipeline_state run_pipeline_wf)

subsection \<open>Properties\<close>

text \<open>
  C12: before the model is loaded (or after its load failed), every prediction request
  on either route that gets past the body parsers and multer is answered 503 "Modelo no
  disponible", and the server state, tensor store included, is left unchanged: no image
  is decoded and no tensor is made.
\<close>

theorem dispatch_not_ready:
  assumes "\<not> isModelLoaded S" and "req_method req = POST"
    and "route_matches ''/predict'' (path req) \<or> route_matches ''/predict/upload'' (path req)"
    and "\<not> body_parse_error (body req)"
    and "upload_file (body req) \<noteq> Inl ()"
  shows "dispatch L S req = (S, model_unavailable)"
  using assms(3)
proof
  assume "route_matches ''/predict'' (path req)"
  then show ?thesis using assms(1,2,4) by (simp add: dispatch_predict predict_handler_def)
next
  assume "route_matches ''/predict/upload'' (path req)"
  then show ?thesis using assms(1,2,4,5)
    by (auto simp: dispatch_upload upload_handler_def split: sum.split)
qed

theorem dispatch_not_ready_witness:
  "dispatch demo_libs (demo_server\<lparr>isModelLoaded := False\<rparr>)
     \<lparr>req_method = POST, path = ''/predict'', body = JsonBody 10 (JString ''AA=='')\<rparr> =
   (demo_server\<lparr>isModelLoaded := False\<rparr>, model_unavailable)"
  by (rule dispatch_not_ready) (simp_all add: demo_server_def route_matches_def ascii_lower_def body_limit_def)

text \<open>
  C13: a base64 image whose bytes Jimp cannot decode is answered 500 with "Error al
  procesar la imagen" and leaves the state unchanged; the route turns the decode failure
  into an internal server error, not into a client-input error.
\<close>

theorem dispatch_decode_error:
  assumes "isModelLoaded S" and "req_method req = POST" and "route_matches ''/predict'' (path req)"
    and "body req = JsonBody n (JString s)" and "n \<le> body_limit" and "s \<noteq> []"
    and "jimp_read (jimp_lib L) (base64_decode L (strip_data_prefix s)) = None"
  shows "dispatch L S req = (S, internal_error ProcessingError)"
  using assms by (simp add: dispatch_predict predict_handler_def answer_pipeline_def run_pipeline_def
      preprocessImage_def)

theorem dispatch_decode_error_witness:
  "dispatch demo_libs demo_server \<lparr>req_method = POST, path = ''/predict'', body = JsonBody 10 (JString ''!!!'')\<rparr> =
   (demo_server, internal_error ProcessingError)"
  by (rule dispatch_decode_error [where n = 10 and s = "''!!!''"])
    (simp_all add: demo_server_def demo_libs_def demo_jimp_def route_matches_def ascii_lower_def
      body_limit_def strip_data_prefix_def)

text \<open>
  C14: end to end over HTTP, a JSON request to \<open>POST /predict\<close> with a decodable
  image and a loaded model that accepts \<open>[1, 224, 224, 3]\<close> is answered 200 with the
  label and the confidence the interpreter computes from the model's first output on the
  normalised image. This holds for every body up to the 50 MB parser limit (lines
  12--13), so a base64 image of about 37 MB is accepted and diagnosed, although the
  README (test client, line 224) gives 10 MB as the largest image; only the multipart
  route enforces 10 MB.
\<close>

theorem dispatch_success:
  assumes "isModelLoaded S" and "model S = Some m" and "model_accepts m" and "engine_wf (store S)"
    and "jimp_ok (jimp_lib L)" and "req_method req = POST" and "route_matches ''/predict'' (path req)"
    and "body req = JsonBody n (JString s)" and "n \<le> body_limit" and "s \<noteq> []"
    and "jimp_read (jimp_lib L) (base64_decode L (strip_data_prefix s)) = Some img"
  shows "snd (dispatch L S req) =
           \<lparr>status = 200, payload = SuccessBody
              (diagnosis_name (diagnosis (interpret_score (js_index (forward m (normalized_input (jimp_lib L) img)) 0))))
              (confidence (interpret_score (js_index (forward m (normalized_input (jimp_lib L) img)) 0)))\<rparr>"
  using assms run_pipeline_ok [OF assms(4,5,11,3)]
  by (simp add: dispatch_predict predict_handler_def answer_pipeline_def)

theorem dispatch_success_witness:
  "snd (dispatch demo_libs demo_server \<lparr>req_method = POST, path = ''/predict'', body = JsonBody 10 (JString ''AA=='')\<rparr>) =
   \<lparr>status = 200, payload = SuccessBody ''Maligno'' (Num 90)\<rparr>"
proof -
  have lib: "jimp_lib demo_libs = demo_jimp" by (simp add: demo_libs_def)
  have p: "isModelLoaded demo_server" "model demo_server = Some demo_model" "model_accepts demo_model"
    "engine_wf (store demo_server)" "jimp_ok (jimp_lib demo_libs)"
    "req_method \<lparr>req_method = POST, path = ''/predict'', body = JsonBody 10 (JString ''AA=='')\<rparr> = POST"
    "route_matches ''/predict'' (path \<lparr>req_method = POST, path = ''/predict'', body = JsonBody 10 (JString ''AA=='')\<rparr>)"
    "body \<lparr>req_method = POST, path = ''/predict'', body = JsonBody 10 (JString ''AA=='')\<rparr> = JsonBody 10 (JString ''AA=='')"
    "10 \<le> body_limit" "''AA=='' \<noteq> []"
    "jimp_read (jimp_lib demo_libs) (base64_decode demo_libs (strip_data_prefix ''AA=='')) = Some demo_bitmap"
    using demo_facts
    by (simp_all add: demo_server_def lib engine_wf_empty route_matches_def ascii_lower_def
        body_limit_def strip_data_prefix_def, simp_all add: demo_libs_def demo_jimp_def)
  show ?thesis
    using dispatch_success [OF p] unfolding lib
    by (simp add: demo_model_def interpret_score_Num round2_def js_simps)
qed

text \<open>
  C15: apart from CORS preflights, a body the parsers reject (over 50 MB, a URL-encoded
  body with 1000 or more separators, or content they cannot parse) and an upload multer rejects (a file part over 10 MB or under a field other than
  \<open>image\<close>) are answered by the global error handler with 500 "Ha ocurrido un error
  inesperado", whatever the route and whether or not the model is loaded, and the state
  is unchanged.
\<close>

theorem dispatch_payload_too_large:
  assumes "req_method req \<noteq> OtherMethod ''OPTIONS''"
    and "body_parse_error (body req) \<or>
     (req_method req = POST \<and> route_matches ''/predict/upload'' (path req) \<and>
      body req = MultipartBody fs \<and> (name, f) \<in> set fs \<and> (name \<noteq> ''image'' \<or> file_limit < length f))"
  shows "dispatch L S req = (S, unexpected_error)"
  using assms(2)
proof
  assume "body_parse_error (body req)"
  then show ?thesis using assms(1) by (simp add: dispatch_def)
next
  assume a: "req_method req = POST \<and> route_matches ''/predict/upload'' (path req) \<and>
      body req = MultipartBody fs \<and> (name, f) \<in> set fs \<and> (name \<noteq> ''image'' \<or> file_limit < length f)"
  then have "list_ex (\<lambda>(name, f). name \<noteq> ''image'' \<or> file_limit < length f) fs"
    by (auto simp: list_ex_iff)
  with a show ?thesis by (simp add: dispatch_upload)
qed

theorem dispatch_payload_too_large_witness:
  "dispatch demo_libs (demo_server\<lparr>isModelLoaded := False\<rparr>)
     \<lparr>req_method = POST, path = ''/predict/upload'',
        body = MultipartBody [(''image'', replicate (Suc file_limit) 0)]\<rparr> =
   (demo_server\<lparr>isModelLoaded := False\<rparr>, unexpected_error)"
  by (rule dispatch_payload_too_large [where name = "''image''" and f = "replicate (Suc file_limit) 0"
        and fs = "[(''image'', replicate (Suc file_limit) 0)]"])
    (simp_all add: route_matches_def ascii_lower_def)

text \<open>
  C16: on a body the parsers accept, \<open>GET /health\<close> and \<open>GET /model/status\<close>
  (case-insensitive, one trailing slash allowed) answer 200 with the load flag, the
  second with the class names, and change nothing; a \<open>GET\<close> (or \<open>HEAD\<close>) to either
  prediction route reaches no handler (both are \<open>app.post\<close>) and gets the 404 of the
  catch-all, without touching the model or the store.
\<close>

theorem dispatch_probes:
  assumes "is_get (req_method req)" and "\<not> body_parse_error (body req)"
  shows "(route_matches ''/health'' (path req) \<longrightarrow>
            dispatch L S req = (S, \<lparr>status = 200, payload = HealthBody (isModelLoaded S)\<rparr>)) \<and>
         (route_matches ''/model/status'' (path req) \<longrightarrow>
            dispatch L S req = (S, \<lparr>status = 200, payload = StatusBody (isModelLoaded S) [''Benigno'', ''Maligno'']\<rparr>)) \<and>
         (route_matches ''/predict'' (path req) \<or> route_matches ''/predict/upload'' (path req) \<longrightarrow>
            dispatch L S req = (S, not_found))"
  using assms by (auto simp: dispatch_def route_matches_def classNames_def is_get_def)

theorem dispatch_probes_witness:
  "dispatch demo_libs demo_server \<lparr>req_method = GET, path = ''/HEALTH/'', body = OtherBody\<rparr> =
     (demo_server, \<lparr>status = 200, payload = HealthBody True\<rparr>) \<and>
   dispatch demo_libs demo_server \<lparr>req_method = GET, path = ''/predict'', body = OtherBody\<rparr> =
     (demo_server, not_found)"
proof -
  have "route_matches ''/health'' ''/HEALTH/''" "route_matches ''/predict'' ''/predict''" by code_simp+
  then show ?thesis
    using dispatch_probes [of "\<lparr>req_method = GET, path = ''/HEALTH/'', body = OtherBody\<rparr>" demo_libs demo_server]
      dispatch_probes [of "\<lparr>req_method = GET, path = ''/predict'', body = OtherBody\<rparr>" demo_libs demo_server]
    by (simp add: is_get_def demo_server_def)
qed

text \<open>
  C17: the data-URL prefix regex of line 167, \<open>/^data:image\/[a-z]+;base64,/\<close>, on
  every string \<open>data:image/SUB;base64,REST\<close> whose subtype has no \<open>;\<close>: the prefix
  is removed exactly when the subtype is a non-empty run of lower-case ASCII letters;
  otherwise (an upper-case subtype such as \<open>PNG\<close>, or one with a digit or \<open>+\<close> such as
  \<open>svg+xml\<close>) the whole string, prefix included, goes to the base64 decoder.
\<close>

theorem data_url_prefix_stripped:
  assumes "CHR '';'' \<notin> set sub"
  shows "strip_data_prefix (''data:image/'' @ sub @ '';base64,'' @ rest) =
           (if sub \<noteq> [] \<and> list_all is_lower_ascii sub then rest
            else ''data:image/'' @ sub @ '';base64,'' @ rest)"
proof (cases "list_all is_lower_ascii sub")
  case True
  show ?thesis
  proof (cases "sub = []")
    case True
    then show ?thesis by (simp add: strip_data_prefix_def is_lower_ascii_def)
  qed (use True strip_data_prefix_url [of sub rest] in \<open>simp add: list_all_iff\<close>)
qed (use strip_data_prefix_unmatched [OF _ assms] in simp)

theorem data_url_prefix_stripped_witness:
  "strip_data_prefix ''data:image/png;base64,AQID'' = ''AQID'' \<and>
   strip_data_prefix ''data:image/PNG;base64,AQID'' = ''data:image/PNG;base64,AQID'' \<and>
   strip_data_prefix ''data:image/svg+xml;base64,AQID'' = ''data:image/svg+xml;base64,AQID''"
proof -
  have l: "list_all is_lower_ascii ''png''" "\<not> list_all is_lower_ascii ''PNG''"
    "\<not> list_all is_lower_ascii ''svg+xml''"
    by (simp_all add: is_lower_ascii_def)
  show ?thesis
    using data_url_prefix_stripped [of "''png''" "''AQID''"] data_url_prefix_stripped [of "''PNG''" "''AQID''"]
      data_url_prefix_stripped [of "''svg+xml''" "''AQID''"] l
    by simp
qed

end
