(* ===== verification/Server_Lifecycle.thy ===== *)
theory Server_Lifecycle
  imports Http_Handlers
begin

text \<open>
  The process around the Express app (\<open>src/server.js\<close>): \<open>startServer\<close> (lines
  257--276) awaits \<open>loadModel\<close> (lines 29--55) and then starts listening; the
  \<open>SIGINT\<close> and \<open>SIGTERM\<close> handlers (lines 279--293) dispose the model if there is
  one and exit with code 0. The process is a record (\<open>proc\<close>) of the server state of
  \<open>Http_Handlers\<close>, the phase, and the models disposed so far; \<open>step\<close> is one event
  of the event loop (the load finishing, a request, a signal), \<open>None\<close> when the event
  cannot happen in that phase, and \<open>reachable\<close> is every state a run from the start
  can reach.
\<close>

datatype phase = Booting | Listening | Exited nat

text \<open>How \<open>await tf.loadGraphModel(...)\<close> (line 35) ends: it throws, or it returns
  a model. The logging after it (lines 37--49) reads the model's \<open>inputs\<close> and
  \<open>outputs\<close> arrays and cannot throw, so it has no outcome of its own.\<close>

datatype load_outcome = LoadError | LoadOk graph_model

datatype signal = SIGINT | SIGTERM

datatype event = LoadDone load_outcome | Request libs request | Signal signal

record proc =
  srv :: server
  phase :: phase
  released :: "graph_model list"

text \<open>\<open>loadModel\<close>, lines 29--55: on a throw from the load, \<open>model\<close> stays as it was
  and the catch clears the flag; otherwise both are assigned.\<close>

fun loadModel :: "load_outcome \<Rightarrow> server \<Rightarrow> server" where
  "loadModel LoadError S = S\<lparr>isModelLoaded := False\<rparr>"
| "loadModel (LoadOk m) S = S\<lparr>model := Some m, isModelLoaded := True\<rparr>"

text \<open>The signal handlers, lines 279--293: \<open>if (model) model.dispose()\<close>, then
  \<open>process.exit(0)\<close>.\<close>

definition shutdown :: "proc \<Rightarrow> proc" where
  "shutdown P =
     P\<lparr>released := released P @ (case model (srv P) of None \<Rightarrow> [] | Some m \<Rightarrow> [m]),
       phase := Exited 0\<rparr>"

text \<open>Lines 24--25 at start: \<open>model\<close> undefined, the flag false, no tensors.\<close>

definition init_proc :: proc where
  "init_proc = \<lparr>srv = \<lparr>model = None, isModelLoaded = False, store = empty_engine\<rparr>,
                phase = Booting, released = []\<rparr>"

text \<open>One event. \<open>startServer\<close> awaits the load, then calls \<open>app.listen\<close>, so
  requests are only accepted once listening, and the load finishes once; a signal can
  arrive in any phase before the exit.\<close>

fun step :: "proc \<Rightarrow> event \<Rightarrow> (proc \<times> response option) option" where
  "step P (LoadDone out) =
     (if phase P = Booting then Some (P\<lparr>srv := loadModel out (srv P), phase := Listening\<rparr>, None)
      else None)"
| "step P (Request L req) =
     (if phase P = Listening then
        (case dispatch L (srv P) req of (S', r) \<Rightarrow> Some (P\<lparr>srv := S'\<rparr>, Some r))
      else None)"
| "step P (Signal s) =
     (case phase P of Exited _ \<Rightarrow> None | _ \<Rightarrow> Some (shutdown P, None))"

inductive reachable :: "proc \<Rightarrow> bool" where
  init: "reachable init_proc"
| step: "reachable P \<Longrightarrow> step P ev = Some (P', r) \<Longrightarrow> reachable P'"

text \<open>A run of events from a state, with the responses sent; events that cannot
  happen stop the run.\<close>

fun run :: "proc \<Rightarrow> event list \<Rightarrow> proc \<times> response list" where
  "run P [] = (P, [])"
| "run P (ev # evs) =
     (case step P ev of
        None \<Rightarrow> (P, [])
      | Some (P', r) \<Rightarrow> (case run P' evs of (P'', rs) \<Rightarrow> (P'', (case r of None \<Rightarrow> rs | Some x \<Rightarrow> x # rs))))"

text \<open>The invariant of the process: the flag implies a model; the store is well formed
  and stays empty while the flag is false; nothing has changed while booting; the model
  is released at the exit and only then; the only exit code is 0.\<close>

definition lifecycle_inv :: "proc \<Rightarrow> bool" where
  "lifecycle_inv P \<longleftrightarrow>
     (isModelLoaded (srv P) \<longrightarrow> model (srv P) \<noteq> None) \<and>
     engine_wf (store (srv P)) \<and>
     (\<not> isModelLoaded (srv P) \<longrightarrow> store (srv P) = empty_engine) \<and>
     (phase P = Booting \<longrightarrow> srv P = srv init_proc) \<and>
     (phase P = Booting \<or> phase P = Listening \<or> phase P = Exited 0) \<and>
     released P = (if phase P = Exited 0 then (case model (srv P) of None \<Rightarrow> [] | Some m \<Rightarrow> [m]) else [])"

subsection \<open>Lemmas on steps\<close>

lemma step_Some_cases:
  assumes "step P ev = Some (P', r)"
  obtains out where "ev = LoadDone out" "phase P = Booting"
      "P' = P\<lparr>srv := loadModel out (srv P), phase := Listening\<rparr>" "r = None"
    | L req where "ev = Request L req" "phase P = Listening"
      "P' = P\<lparr>srv := fst (dispatch L (srv P) req)\<rparr>" "r = Some (snd (dispatch L (srv P) req))"
    | s where "ev = Signal s" "phase P = Booting \<or> phase P = Listening" "P' = shutdown P" "r = None"
  using assms
  by (cases ev) (auto split: if_splits prod.splits phase.splits)

lemma loadModel_store: "store (loadModel out S) = store S"
  by (cases out) simp_all

lemma loadModel_flag: "isModelLoaded (loadModel out S) \<Longrightarrow> model (loadModel out S) \<noteq> None"
  by (cases out) simp_all

lemma dispatch_unloaded_state:
  "\<not> isModelLoaded S \<Longrightarrow> fst (dispatch L S req) = S"
  by (auto simp: dispatch_def predict_handler_def upload_handler_def split: sum.split)

lemma shutdown_simps [simp]:
  "srv (shutdown P) = srv P" "phase (shutdown P) = Exited 0"
  by (simp_all add: shutdown_def)

lemma lifecycle_inv_init: "lifecycle_inv init_proc"
  by (simp add: lifecycle_inv_def init_proc_def engine_wf_empty)

lemma lifecycle_inv_step:
  assumes inv: "lifecycle_inv P" and st: "step P ev = Some (P', r)"
  shows "lifecycle_inv P'"
  using st
proof (cases rule: step_Some_cases)
  case (1 out)
  then show ?thesis using inv loadModel_flag [of out "srv P"] loadModel_store [of out "srv P"]
    by (auto simp: lifecycle_inv_def init_proc_def engine_wf_empty)
next
  case (2 L req)
  show ?thesis
  proof (cases "isModelLoaded (srv P)")
    case True
    then show ?thesis using 2 inv dispatch_frame [of L "srv P" req] dispatch_wf [of "srv P" L req]
      by (simp add: lifecycle_inv_def)
  next
    case False
    then show ?thesis using 2 inv dispatch_unloaded_state [OF False] by simp
  qed
next
  case (3 s)
  then show ?thesis using inv by (auto simp: lifecycle_inv_def shutdown_def)
qed

lemma reachable_inv: "reachable P \<Longrightarrow> lifecycle_inv P"
  by (induction rule: reachable.induct) (auto intro: lifecycle_inv_init lifecycle_inv_step)

lemma step_after_boot:
  assumes "step P ev = Some (P', r)" and "phase P \<noteq> Booting"
  shows "model (srv P') = model (srv P) \<and> isModelLoaded (srv P') = isModelLoaded (srv P)"
  using assms(1)
proof (cases rule: step_Some_cases)
  case (2 L req)
  then show ?thesis using dispatch_frame [of L "srv P" req] by simp
qed (use assms(2) in simp_all)

lemma step_not_booting:
  "step P ev = Some (P', r) \<Longrightarrow> phase P' \<noteq> Booting"
  by (erule step_Some_cases) simp_all

lemma step_exited: "phase P = Exited k \<Longrightarrow> step P ev = None"
  by (cases ev) simp_all

lemma run_Cons_Some:
  "step P ev = Some (P', r) \<Longrightarrow>
   run P (ev # evs) = (fst (run P' evs), (case r of None \<Rightarrow> [] | Some x \<Rightarrow> [x]) @ snd (run P' evs))"
  by (simp split: prod.split option.split)

lemma reachable_listening:
  "reachable (init_proc\<lparr>srv := loadModel out (srv init_proc), phase := Listening\<rparr>)"
  by (rule reachable.step [OF reachable.init, of "LoadDone out" _ None]) (simp add: init_proc_def)

subsection \<open>Properties\<close>

text \<open>
  C18: in every state the process can reach, the load flag is only set with a model
  present, the tensor store is well formed, and while the flag is false the store is
  still the empty one: without a loaded model no tensor is ever allocated.
\<close>

theorem lifecycle_invariant:
  assumes "reachable P"
  shows "(isModelLoaded (srv P) \<longrightarrow> model (srv P) \<noteq> None) \<and> engine_wf (store (srv P)) \<and>
         (\<not> isModelLoaded (srv P) \<longrightarrow> store (srv P) = empty_engine)"
  using reachable_inv [OF assms] by (simp add: lifecycle_inv_def)

theorem lifecycle_invariant_witness:
  "engine_wf (store (srv (init_proc\<lparr>srv := loadModel (LoadOk demo_model) (srv init_proc), phase := Listening\<rparr>))) \<and>
   model (srv (init_proc\<lparr>srv := loadModel (LoadOk demo_model) (srv init_proc), phase := Listening\<rparr>)) \<noteq> None"
  using lifecycle_invariant [OF reachable_listening [of "LoadOk demo_model"]] by simp

text \<open>
  C19: the model is loaded once: after the boot phase, no run of events (requests,
  signals) changes the load flag or the model, so a failed load is never retried and a
  loaded model is never replaced.
\<close>

theorem load_state_final:
  assumes "phase P \<noteq> Booting"
  shows "model (srv (fst (run P evs))) = model (srv P) \<and>
         isModelLoaded (srv (fst (run P evs))) = isModelLoaded (srv P)"
  using assms
proof (induction evs arbitrary: P)
  case (Cons ev evs)
  show ?case
  proof (cases "step P ev")
    case (Some a)
    obtain P' r where a: "a = (P', r)" by (cases a)
    have "phase P' \<noteq> Booting" using step_not_booting Some a by blast
    then show ?thesis
      using Cons.IH [of P'] step_after_boot [OF _ Cons.prems] Some a
      by (simp add: run_Cons_Some del: run.simps(2))
  qed simp
qed simp

theorem load_state_final_witness:
  "model (srv (fst (run (init_proc\<lparr>srv := loadModel LoadError (srv init_proc), phase := Listening\<rparr>)
      [Request demo_libs \<lparr>req_method = POST, path = ''/predict'', body = JsonBody 10 (JString ''AA=='')\<rparr>]))) = None \<and>
   \<not> isModelLoaded (srv (fst (run (init_proc\<lparr>srv := loadModel LoadError (srv init_proc), phase := Listening\<rparr>)
      [Request demo_libs \<lparr>req_method = POST, path = ''/predict'', body = JsonBody 10 (JString ''AA=='')\<rparr>])))"
  using load_state_final [of "init_proc\<lparr>srv := loadModel LoadError (srv init_proc), phase := Listening\<rparr>"
      "[Request demo_libs \<lparr>req_method = POST, path = ''/predict'', body = JsonBody 10 (JString ''AA=='')\<rparr>]"]
  by (simp add: init_proc_def)

text \<open>
  C20: a signal in a reachable state ends the process with exit code 0 after disposing of
  the model exactly when one was assigned, and only then; once exited, no event is
  processed, so the model is released at most once.
\<close>

theorem signal_shutdown:
  assumes "reachable P" and "step P (Signal s) = Some (P', r)"
  shows "phase P' = Exited 0 \<and>
         released P' = (case model (srv P) of None \<Rightarrow> [] | Some m \<Rightarrow> [m]) \<and>
         (\<forall>ev. step P' ev = None)"
proof -
  have inv: "lifecycle_inv P" using reachable_inv [OF assms(1)] .
  from assms(2) have ph: "phase P = Booting \<or> phase P = Listening" and P': "P' = shutdown P"
    by (cases "phase P"; simp)+
  have "released P = []" using inv ph by (auto simp: lifecycle_inv_def)
  then show ?thesis using P' step_exited [of P' 0] by (simp add: shutdown_def)
qed

theorem signal_shutdown_witness:
  "phase (fst (the (step (init_proc\<lparr>srv := loadModel (LoadOk demo_model) (srv init_proc), phase := Listening\<rparr>) (Signal SIGTERM)))) = Exited 0 \<and>
   released (fst (the (step (init_proc\<lparr>srv := loadModel (LoadOk demo_model) (srv init_proc), phase := Listening\<rparr>) (Signal SIGTERM)))) = [demo_model]"
proof -
  let ?P = "init_proc\<lparr>srv := loadModel (LoadOk demo_model) (srv init_proc), phase := Listening\<rparr>"
  have st: "step ?P (Signal SIGTERM) = Some (shutdown ?P, None)" by simp
  show ?thesis using signal_shutdown [OF reachable_listening st] st by (simp add: init_proc_def)
qed

end
