(* ===== verification/Base64.thy ===== *)
theory Base64
  imports Model_Prelude
begin

text \<open>
  Node's base64 codec as the program uses it: the test client encodes the image file
  with \<open>Buffer.toString('base64')\<close> (\<open>src/test-client.js\<close>, line 9) and the
  server decodes the request's string with \<open>Buffer.from(s, 'base64')\<close>
  (\<open>src/server.js\<close>, line 168). Both are library code, modelled here from Node's
  documented behaviour: the encoder is RFC 4648 with padding; the decoder is lenient,
  skipping characters outside the alphabet, accepting the URL-safe alphabet, and
  stopping at the first \<open>=\<close>. The lemmas show that decoding inverts encoding on
  every byte list, with the 24-bit arithmetic of a group written out on \<open>nat\<close> and
  the bytes read back as \<open>8 word\<close>. Strings are lists of 8-bit characters: a
  JavaScript string character above U+00FF, which Node's decoder reads by its low byte,
  is outside the model.
\<close>

text \<open>The alphabet of RFC 4648, in which \<open>Buffer.toString('base64')\<close> writes.\<close>

definition b64_alphabet :: string where
  "b64_alphabet = ''ABCDEFGHIJKLMNOPQRSTUVWXYZabcdefghijklmnopqrstuvwxyz0123456789+/''"

text \<open>The first \<open>k\<close> characters of the four that encode the 24-bit value \<open>n\<close>.\<close>

fun encode_group :: "nat \<Rightarrow> nat \<Rightarrow> string" where
  "encode_group n k = map (\<lambda>j. b64_alphabet ! ((n div 64 ^ (3 - j)) mod 64)) [0..<k]"

text \<open>\<open>imageBuffer.toString('base64')\<close> (test client, line 9): three bytes to four
  characters, the last group padded with \<open>=\<close>.\<close>

fun base64_encode :: "byte list \<Rightarrow> string" where
  "base64_encode (a # b # c # rest) =
     encode_group (unat a * 65536 + unat b * 256 + unat c) 4 @ base64_encode rest"
| "base64_encode [a, b] = encode_group (unat a * 65536 + unat b * 256) 3 @ ''=''"
| "base64_encode [a] = encode_group (unat a * 65536) 2 @ ''==''"
| "base64_encode [] = []"

text \<open>The value of a character for Node's decoder: the standard alphabet and the
  URL-safe \<open>-\<close> and \<open>_\<close>; other characters are skipped.\<close>

definition sextet_of :: "char \<Rightarrow> nat option" where
  "sextet_of c =
     (case map_of (zip b64_alphabet [0..<64]) c of
        Some k \<Rightarrow> Some k
      | None \<Rightarrow> if c = CHR ''-'' then Some 62 else if c = CHR ''_'' then Some 63 else None)"

text \<open>Four values give three bytes; a final group of three or two values gives two
  or one byte; a single value gives none.\<close>

fun decode_sextets :: "nat list \<Rightarrow> byte list" where
  "decode_sextets (s1 # s2 # s3 # s4 # rest) =
     (let n = s1 * 262144 + s2 * 4096 + s3 * 64 + s4
      in [of_nat (n div 65536), of_nat (n div 256), of_nat n] @ decode_sextets rest)"
| "decode_sextets [s1, s2, s3] =
     (let n = s1 * 262144 + s2 * 4096 + s3 * 64 in [of_nat (n div 65536), of_nat (n div 256)])"
| "decode_sextets [s1, s2] = [of_nat ((s1 * 262144 + s2 * 4096) div 65536)]"
| "decode_sextets _ = []"

text \<open>\<open>Buffer.from(base64Data, 'base64')\<close> (server, line 168): decoding stops at
  the first \<open>=\<close>, never throws.\<close>

definition node_base64_decode :: "string \<Rightarrow> byte list" where
  "node_base64_decode s = decode_sextets (List.map_filter sextet_of (takeWhile (\<lambda>c. c \<noteq> CHR ''='') s))"

subsection \<open>Lemmas\<close>

lemma b64_alphabet_facts: "length b64_alphabet = 64" "distinct b64_alphabet" "CHR ''='' \<notin> set b64_alphabet"
  by (simp_all add: b64_alphabet_def)

lemma sextet_of_alphabet: "k < 64 \<Longrightarrow> sextet_of (b64_alphabet ! k) = Some k"
  using map_of_zip_nth [of b64_alphabet "[0..<64]" k] b64_alphabet_facts
  by (simp add: sextet_of_def)

lemma alphabet_not_eq: "k < 64 \<Longrightarrow> b64_alphabet ! k \<noteq> CHR ''=''"
  using b64_alphabet_facts(1,3) nth_mem by metis


lemma sextets_recombine:
  "((n::nat) div 262144 mod 64) * 262144 + (n div 4096 mod 64) * 4096 + (n div 64 mod 64) * 64 + n mod 64 =
   n mod 16777216"
proof -
  have "n mod 16777216 = (n div 262144 mod 64) * 262144 + n mod 262144"
    using mod_mult2_eq [of n 262144 64] by simp
  moreover have "n mod 262144 = (n div 4096 mod 64) * 4096 + n mod 4096"
    using mod_mult2_eq [of n 4096 64] by simp
  moreover have "n mod 4096 = (n div 64 mod 64) * 64 + n mod 64"
    using mod_mult2_eq [of n 64 64] by simp
  ultimately show ?thesis by simp
qed

lemma encode_group_no_pad: "CHR ''='' \<notin> set (encode_group n k)"
proof -
  have "x \<noteq> CHR ''=''" if "x \<in> set (encode_group n k)" for x
  proof -
    from that obtain j where "x = b64_alphabet ! (n div 64 ^ (3 - j) mod 64)" by auto
    then show ?thesis using alphabet_not_eq [of "n div 64 ^ (3 - j) mod 64"] by simp
  qed
  then show ?thesis by blast
qed

lemma decode_encode_group:
  "List.map_filter sextet_of (encode_group n 4) =
     [n div 262144 mod 64, n div 4096 mod 64, n div 64 mod 64, n mod 64]"
  "List.map_filter sextet_of (encode_group n 3) = [n div 262144 mod 64, n div 4096 mod 64, n div 64 mod 64]"
  "List.map_filter sextet_of (encode_group n 2) = [n div 262144 mod 64, n div 4096 mod 64]"
  by (simp_all add: upt_rec map_filter_simps sextet_of_alphabet)

lemma len256: "(2::nat) ^ LENGTH(8) = 256"
  by simp

lemma byte_of_nat_high: "(of_nat (x * 256 + m) :: byte) = of_nat m"
  unfolding word_of_nat_eq_iff take_bit_eq_mod by simp

lemma unat_byte_lt: "unat (a :: byte) < 256"
  using unsigned_less [of a] by simp

lemma group_value:
  "(n::nat) < 16777216 \<Longrightarrow>
   (n div 262144 mod 64) * 262144 + (n div 4096 mod 64) * 4096 + (n div 64 mod 64) * 64 + n mod 64 = n"
  using sextets_recombine [of n] by simp

lemma decode_group3:
  fixes a b c :: byte
  defines "n \<equiv> unat a * 65536 + unat b * 256 + unat c"
  shows "decode_sextets ([n div 262144 mod 64, n div 4096 mod 64, n div 64 mod 64, n mod 64] @ rest) =
         [a, b, c] @ decode_sextets rest"
proof -
  have lt: "unat a < 256" "unat b < 256" "unat c < 256" using unat_byte_lt by auto
  then have "n < 16777216" by (simp add: n_def)
  then have v: "(n div 262144 mod 64) * 262144 + (n div 4096 mod 64) * 4096 + (n div 64 mod 64) * 64 + n mod 64 = n"
    by (rule group_value)
  have d1: "n div 65536 = unat a" using lt by (simp add: n_def)
  have d2: "n div 256 = unat a * 256 + unat b" using lt by (simp add: n_def)
  have d3: "n = (unat a * 256 + unat b) * 256 + unat c" by (simp add: n_def)
  have ba: "(of_nat (n div 65536) :: byte) = a" by (simp add: d1)
  have bb: "(of_nat (n div 256) :: byte) = b"
  proof -
    have "(of_nat (n div 256) :: byte) = of_nat (unat b)"
      unfolding d2 word_of_nat_eq_iff take_bit_eq_mod len256 by (simp only: mod_mult_self3)
    then show ?thesis by simp
  qed
  have bc: "(of_nat n :: byte) = c"
  proof -
    have "(of_nat n :: byte) = of_nat (unat c)"
      unfolding d3 word_of_nat_eq_iff take_bit_eq_mod len256 by (simp only: mod_mult_self3)
    then show ?thesis by simp
  qed
  show ?thesis by (simp only: decode_sextets.simps append_Cons append_Nil Let_def v ba bb bc)
qed

lemma decode_group2:
  fixes a b :: byte
  defines "n \<equiv> unat a * 65536 + unat b * 256"
  shows "decode_sextets [n div 262144 mod 64, n div 4096 mod 64, n div 64 mod 64] = [a, b]"
proof -
  have lt: "unat a < 256" "unat b < 256" using unat_byte_lt by auto
  then have "n < 16777216" by (simp add: n_def)
  then have v: "(n div 262144 mod 64) * 262144 + (n div 4096 mod 64) * 4096 + (n div 64 mod 64) * 64 + n mod 64 = n"
    by (rule group_value)
  have "n = 64 * (unat a * 1024 + unat b * 4)" by (simp add: n_def)
  then have m0: "n mod 64 = 0" by simp
  note v' = v [unfolded m0 add_0_right]
  have d1: "n div 65536 = unat a" using lt by (simp add: n_def)
  have d2: "n div 256 = unat a * 256 + unat b" using lt by (simp add: n_def)
  have ba: "(of_nat (n div 65536) :: byte) = a" by (simp add: d1)
  have bb: "(of_nat (n div 256) :: byte) = b"
  proof -
    have "(of_nat (n div 256) :: byte) = of_nat (unat b)"
      unfolding d2 word_of_nat_eq_iff take_bit_eq_mod len256 by (simp only: mod_mult_self3)
    then show ?thesis by simp
  qed
  show ?thesis by (simp only: decode_sextets.simps Let_def v' ba bb)
qed

lemma decode_group1:
  fixes a :: byte
  defines "n \<equiv> unat a * 65536"
  shows "decode_sextets [n div 262144 mod 64, n div 4096 mod 64] = [a]"
proof -
  have lt: "unat a < 256" using unat_byte_lt by auto
  then have "n < 16777216" by (simp add: n_def)
  then have v: "(n div 262144 mod 64) * 262144 + (n div 4096 mod 64) * 4096 + (n div 64 mod 64) * 64 + n mod 64 = n"
    by (rule group_value)
  have "n = 4096 * (unat a * 16)" by (simp add: n_def)
  then have m0: "n mod 64 = 0" and m1: "n div 64 mod 64 = 0" by simp_all
  note v' = v [unfolded m0 m1 mult_zero_left add_0_right]
  have "(of_nat (n div 65536) :: byte) = a" using lt by (simp add: n_def)
  then show ?thesis by (simp only: decode_sextets.simps v')
qed

lemma takeWhile_group:
  "takeWhile (\<lambda>c. c \<noteq> CHR ''='') (encode_group n k @ rest) =
   encode_group n k @ takeWhile (\<lambda>c. c \<noteq> CHR ''='') rest"
  using encode_group_no_pad [of n k] by (intro takeWhile_append2) (auto simp del: encode_group.simps)

lemma map_filter_app:
  "List.map_filter f (xs @ ys) = List.map_filter f xs @ List.map_filter f ys"
  by (simp add: map_filter_def)

lemma node_base64_decode_encode: "node_base64_decode (base64_encode bs) = bs"
proof (induction bs rule: base64_encode.induct)
  case (1 a b c rest)
  then show ?case
    using decode_group3 [of a b c "List.map_filter sextet_of (takeWhile (\<lambda>c. c \<noteq> CHR ''='') (base64_encode rest))"]
    by (simp add: node_base64_decode_def takeWhile_group map_filter_app decode_encode_group(1) del: decode_sextets.simps encode_group.simps)
next
  case (2 a b)
  then show ?case
    using decode_group2 [of a b] takeWhile_group [of _ 3 "''=''"]
    by (simp add: node_base64_decode_def decode_encode_group(2) del: decode_sextets.simps encode_group.simps)
next
  case (3 a)
  then show ?case
    using decode_group1 [of a] takeWhile_group [of _ 2 "''==''"]
    by (simp add: node_base64_decode_def decode_encode_group(3) del: decode_sextets.simps encode_group.simps)
qed (simp add: node_base64_decode_def)

lemma length_base64_encode: "length (base64_encode bs) = 4 * ((length bs + 2) div 3)"
proof (induction bs rule: base64_encode.induct)
  case (1 a b c rest)
  have "(5 + length rest) div 3 = (length rest + 2) div 3 + 1" by presburger
  with 1 show ?case by simp
qed simp_all

lemma encode_group_chars: "set (encode_group n k) \<subseteq> set b64_alphabet"
  using b64_alphabet_facts(1) by (auto intro!: nth_mem)

lemma base64_encode_chars: "set (base64_encode bs) \<subseteq> insert (CHR ''='') (set b64_alphabet)"
  by (induction bs rule: base64_encode.induct)
    (use encode_group_chars in \<open>auto simp del: encode_group.simps\<close>)

subsection \<open>Properties\<close>

text \<open>
  C21: Node's decoder inverts Node's encoder on every byte list: the string the test
  client sends decodes on the server to exactly the file's bytes. The encoding has
  four characters per started group of three bytes, all from the base64 alphabet or
  the padding character.
\<close>

theorem base64_roundtrip:
  "node_base64_decode (base64_encode bs) = bs \<and>
   length (base64_encode bs) = 4 * ((length bs + 2) div 3) \<and>
   set (base64_encode bs) \<subseteq> insert (CHR ''='') (set b64_alphabet)"
  using node_base64_decode_encode length_base64_encode base64_encode_chars by blast

end
