(* ===== verification/Test_Client.thy ===== *)
theory Test_Client
  imports Http_Handlers Base64
begin

text \<open>
  The test client \<open>src/test-client.js\<close>: \<open>imageToBase64\<close> (lines 6--16) reads the file,
  encodes it and wraps it in a data URL whose MIME type follows the extension;
  \<open>makePrediction\<close> (lines 19--52) posts it as the JSON body \<open>{"image": ...}\<close> to
  \<open>/predict\<close> and returns the response body, or \<open>null\<close> when the file cannot be read;
  \<open>checkServerStatus\<close> (lines 55--70) asks \<open>/health\<close>. The file system is a parameter
  (\<open>readFile\<close>: \<open>None\<close> when \<open>readFileSync\<close> throws), \<open>path.extname\<close> is modelled
  from Node's documented behaviour, and the request is answered by \<open>dispatch\<close> of
  \<open>Http_Handlers\<close>; the transport and the console output are not modelled.
\<close>

text \<open>\<open>path.extname\<close> on POSIX paths: the suffix of the last segment (trailing slashes
  ignored) from its last dot, empty when there is no dot, when the dot starts the segment,
  and for \<open>..\<close>.\<close>

definition basename_part :: "string \<Rightarrow> string" where
  "basename_part p =
     rev (takeWhile (\<lambda>c. c \<noteq> CHR ''/'') (dropWhile (\<lambda>c. c = CHR ''/'') (rev p)))"

definition extname :: "string \<Rightarrow> string" where
  "extname p =
     (let b = basename_part p;
          tail = rev (takeWhile (\<lambda>c. c \<noteq> CHR ''.'') (rev b))
      in if CHR ''.'' \<notin> set b \<or> b = ''..'' \<or> length tail + 1 = length b then []
         else CHR ''.'' # tail)"

text \<open>Line 10: \<open>path.extname(imagePath).toLowerCase() === '.png'\<close>. Only ASCII letters
  lower-case to the letters of \<open>.png\<close>, so \<open>ascii_lower\<close> decides the comparison as
  \<open>toLowerCase\<close> does.\<close>

definition mime_type :: "string \<Rightarrow> string" where
  "mime_type p = (if map ascii_lower (extname p) = ''.png'' then ''image/png'' else ''image/jpeg'')"

text \<open>Lines 6--16; \<open>None\<close> is the \<open>null\<close> of the catch.\<close>

definition imageToBase64 :: "(string \<Rightarrow> byte list option) \<Rightarrow> string \<Rightarrow> string option" where
  "imageToBase64 readFile imagePath =
     (case readFile imagePath of
        None \<Rightarrow> None
      | Some imageBuffer \<Rightarrow>
          Some (''data:'' @ mime_type imagePath @ '';base64,'' @ base64_encode imageBuffer))"

text \<open>Lines 21--34: the request \<open>makePrediction\<close> sends; the body
  \<open>JSON.stringify({image: url})\<close> is the URL and 12 more characters (base64 and the
  data-URL prefix need no escaping).\<close>

definition prediction_request :: "(string \<Rightarrow> byte list option) \<Rightarrow> string \<Rightarrow> request option" where
  "prediction_request readFile imagePath =
     (case imageToBase64 readFile imagePath of
        None \<Rightarrow> None
      | Some base64Image \<Rightarrow>
          Some \<lparr>req_method = POST, path = ''/predict'',
                body = JsonBody (length base64Image + 12) (JString base64Image)\<rparr>)"

text \<open>Lines 19--52 against a server in state \<open>S\<close>: the server's new state and the body
  returned, \<open>None\<close> for the \<open>null\<close> of a failed read (no request is sent).\<close>

definition client_makePrediction ::
  "libs \<Rightarrow> server \<Rightarrow> (string \<Rightarrow> byte list option) \<Rightarrow> string \<Rightarrow> server \<times> payload option" where
  "client_makePrediction L S readFile imagePath =
     (case prediction_request readFile imagePath of
        None \<Rightarrow> (S, None)
      | Some req \<Rightarrow> (case dispatch L S req of (S', res) \<Rightarrow> (S', Some (payload res))))"

text \<open>Lines 55--70: \<open>GET /health\<close>.\<close>

definition status_request :: request where
  "status_request = \<lparr>req_method = GET, path = ''/health'', body = OtherBody\<rparr>"

text \<open>Fixtures for the witnesses: one readable file, and the demo libraries with Node's
  decoder.\<close>

definition demo_files :: "string \<Rightarrow> byte list option" where
  "demo_files p = (if p = ''./test-image.jpg'' then Some [0] else None)"

definition node_libs :: libs where
  "node_libs = demo_libs\<lparr>base64_decode := node_base64_decode\<rparr>"

subsection \<open>Lemmas\<close>

lemma mime_type_cases: "mime_type p = ''image/'' @ ''png'' \<or> mime_type p = ''image/'' @ ''jpeg''"
  by (simp add: mime_type_def)

lemma strip_client_url:
  "strip_data_prefix (''data:'' @ mime_type p @ '';base64,'' @ rest) = rest"
proof -
  have lo: "\<forall>c \<in> set ''png''. is_lower_ascii c" "\<forall>c \<in> set ''jpeg''. is_lower_ascii c"
    by (simp_all add: is_lower_ascii_def)
  show ?thesis
    using mime_type_cases [of p] strip_data_prefix_url [OF _ lo(1), of rest]
      strip_data_prefix_url [OF _ lo(2), of rest]
    by auto
qed

lemma length_mime_type: "length (mime_type p) \<le> 10"
  by (simp add: mime_type_def)

lemma prediction_request_Some:
  assumes "readFile p = Some bs"
  shows "prediction_request readFile p =
     Some \<lparr>req_method = POST, path = ''/predict'',
           body = JsonBody (length (''data:'' @ mime_type p @ '';base64,'' @ base64_encode bs) + 12)
                    (JString (''data:'' @ mime_type p @ '';base64,'' @ base64_encode bs))\<rparr>"
  using assms by (simp add: prediction_request_def imageToBase64_def)

lemma client_body_size:
  assumes "length bs \<le> 30000000"
  shows "length (''data:'' @ mime_type p @ '';base64,'' @ base64_encode bs) + 12 \<le> body_limit"
proof -
  have "(length bs + 2) div 3 \<le> 30000002 div 3" using assms by (intro div_le_mono) simp
  then have "length (base64_encode bs) \<le> 40000000" by (simp add: length_base64_encode)
  then show ?thesis using length_mime_type [of p] by (simp add: body_limit_def)
qed

subsection \<open>Properties\<close>

text \<open>
  C22: client and server agree end to end: for a readable file of up to 30 MB and a
  loaded model, the request \<open>makePrediction\<close> of the test client builds passes the body
  parser, the server strips exactly the data-URL prefix the client added, Node's
  decoder recovers exactly the file's bytes, and the client gets back the body the
  pipeline produces on those bytes. The client enforces no size limit and the JSON
  route only the 50 MB body limit, so files between the README's 10 MB maximum (line
  224) and 30 MB are sent and answered like small ones.
\<close>

theorem client_server_roundtrip:
  assumes "readFile p = Some bs" and "base64_decode L = node_base64_decode"
    and "isModelLoaded S" and "length bs \<le> 30000000"
  shows "client_makePrediction L S readFile p =
           (fst (answer_pipeline L S bs), Some (payload (snd (answer_pipeline L S bs))))"
proof -
  let ?url = "''data:'' @ mime_type p @ '';base64,'' @ base64_encode bs"
  let ?req = "\<lparr>req_method = POST, path = ''/predict'', body = JsonBody (length ?url + 12) (JString ?url)\<rparr>"
  have np: "\<not> body_parse_error (body ?req)" using client_body_size [OF assms(4), of p] by simp
  have rt: "route_matches ''/predict'' (path ?req)" by (simp add: route_matches_def ascii_lower_def)
  have dec: "base64_decode L (strip_data_prefix ?url) = bs"
    using assms(2) by (simp only: strip_client_url node_base64_decode_encode)
  have "predict_handler L S (JString ?url) = answer_pipeline L S bs"
    unfolding predict_handler_def using assms(3) dec by simp
  then have "dispatch L S ?req = answer_pipeline L S bs"
    using dispatch_predict [OF np _ rt] by simp
  then show ?thesis
    using prediction_request_Some [where readFile = readFile and p = p, OF assms(1)]
    by (simp add: client_makePrediction_def split: prod.split)
qed

theorem client_server_roundtrip_witness:
  "client_makePrediction node_libs demo_server demo_files ''./test-image.jpg'' =
     (fst (answer_pipeline node_libs demo_server [0]), Some (payload (snd (answer_pipeline node_libs demo_server [0]))))"
  by (rule client_server_roundtrip) (simp_all add: demo_files_def node_libs_def demo_server_def)

text \<open>
  C23: when the file cannot be read, \<open>imageToBase64\<close> returns \<open>null\<close>, \<open>makePrediction\<close>
  throws and catches its own error, no request is sent, and the server is unchanged.
\<close>

theorem client_unreadable:
  assumes "readFile p = None"
  shows "client_makePrediction L S readFile p = (S, None)"
  using assms by (simp add: client_makePrediction_def prediction_request_def imageToBase64_def)

theorem client_unreadable_witness:
  "client_makePrediction node_libs demo_server demo_files ''missing.png'' = (demo_server, None)"
  by (rule client_unreadable) (simp add: demo_files_def)

end
