(* ===== verification/Client_Server.thy ===== *)
theory Client_Server
  imports Server_Lifecycle Test_Client
begin

text \<open>
  The test client against the running process: \<open>fetch\<close> reaches the server only while
  it listens (before \<open>app.listen\<close> and after \<open>process.exit\<close> the connection is refused,
  \<open>fetch\<close> rejects, and the client's \<open>catch\<close> returns \<open>null\<close>); a request that
  arrives is one \<open>Request\<close> event of \<open>Server_Lifecycle\<close>. \<open>response.json()\<close> gives
  the body, and \<open>makePrediction\<close> and \<open>checkServerStatus\<close> return it whether the
  status is an error or not (lines 36--47 and 58--65).
\<close>

text \<open>\<open>await fetch(...)\<close> then \<open>await response.json()\<close>, with the \<open>catch\<close> of a
  rejected fetch (lines 26--36, 48--51, 57--58, 66--69).\<close>

definition fetch_json :: "libs \<Rightarrow> proc \<Rightarrow> request \<Rightarrow> proc \<times> payload option" where
  "fetch_json L P req =
     (case step P (Request L req) of
        Some (P', Some res) \<Rightarrow> (P', Some (payload res))
      | _ \<Rightarrow> (P, None))"

text \<open>\<open>checkServerStatus\<close>, lines 55--70.\<close>

definition checkServerStatus :: "libs \<Rightarrow> proc \<Rightarrow> proc \<times> payload option" where
  "checkServerStatus L P = fetch_json L P status_request"

text \<open>\<open>makePrediction\<close>, lines 19--52, against the process.\<close>

definition client_predict :: "libs \<Rightarrow> (string \<Rightarrow> byte list option) \<Rightarrow> string \<Rightarrow> proc \<Rightarrow> proc \<times> payload option" where
  "client_predict L readFile imagePath P =
     (case prediction_request readFile imagePath of
        None \<Rightarrow> (P, None)
      | Some req \<Rightarrow> fetch_json L P req)"

text \<open>\<open>ejemplo\<close>, lines 73--92: one status check between log lines (the prediction at
  line 81 is commented out), whose result it drops: it returns \<open>undefined\<close>, so all it
  leaves is the process state; lines 90--92 run it when the file is the main module.\<close>

definition ejemplo :: "libs \<Rightarrow> proc \<Rightarrow> proc" where
  "ejemplo L P = fst (checkServerStatus L P)"

subsection \<open>Lemmas\<close>

lemma fetch_json_listening:
  "phase P = Listening \<Longrightarrow>
   fetch_json L P req = (P\<lparr>srv := fst (dispatch L (srv P) req)\<rparr>, Some (payload (snd (dispatch L (srv P) req))))"
  by (simp add: fetch_json_def split: prod.split)

lemma fetch_json_refused: "phase P \<noteq> Listening \<Longrightarrow> fetch_json L P req = (P, None)"
  by (simp add: fetch_json_def)

lemma dispatch_status_request:
  "dispatch L S status_request = (S, \<lparr>status = 200, payload = HealthBody (isModelLoaded S)\<rparr>)"
  by (simp add: dispatch_def status_request_def is_get_def route_matches_def ascii_lower_def)

subsection \<open>Properties\<close>

text \<open>
  C25: the client's status check reports readiness exactly: while the server listens it
  returns the health body with the server's load flag, and changes nothing; before the
  server listens or after it exited it returns \<open>null\<close>.
\<close>

theorem checkServerStatus_reports:
  "checkServerStatus L P =
     (P, if phase P = Listening then Some (HealthBody (isModelLoaded (srv P))) else None)"
  by (cases "phase P = Listening")
    (simp_all add: checkServerStatus_def fetch_json_listening fetch_json_refused dispatch_status_request)

text \<open>
  C26: a failed model load is reported to the client, not hidden: after a load that
  threw, every prediction the test client makes of a readable file (up to 30 MB) is
  answered with the 503 body "Modelo no disponible", and the process state, tensor store
  included, is unchanged, for as long as the process runs.
\<close>

theorem client_predict_after_failed_load:
  assumes "reachable P" and "phase P = Listening" and "\<not> isModelLoaded (srv P)"
    and "readFile p = Some bs" and "length bs \<le> 30000000"
  shows "client_predict L readFile p P = (P, Some (payload model_unavailable))"
proof -
  let ?url = "''data:'' @ mime_type p @ '';base64,'' @ base64_encode bs"
  let ?req = "\<lparr>req_method = POST, path = ''/predict'', body = JsonBody (length ?url + 12) (JString ?url)\<rparr>"
  have np: "\<not> body_parse_error (body ?req)" using client_body_size [OF assms(5), of p] by simp
  have rt: "route_matches ''/predict'' (path ?req)" by (simp add: route_matches_def ascii_lower_def)
  have "dispatch L (srv P) ?req = (srv P, model_unavailable)"
    using dispatch_predict [OF np _ rt] assms(3) by (simp add: predict_handler_def)
  then show ?thesis
    using prediction_request_Some [where readFile = readFile and p = p, OF assms(4)] assms(2)
    by (simp add: client_predict_def fetch_json_listening)
qed

theorem client_predict_after_failed_load_witness:
  "client_predict node_libs demo_files ''./test-image.jpg''
     (init_proc\<lparr>srv := loadModel LoadError (srv init_proc), phase := Listening\<rparr>) =
   (init_proc\<lparr>srv := loadModel LoadError (srv init_proc), phase := Listening\<rparr>, Some (payload model_unavailable))"
  by (rule client_predict_after_failed_load [OF reachable_listening, where bs = "[0]"])
    (simp_all add: init_proc_def demo_files_def)

end
