(* ===== verification/Request_Interleaving.thy ===== *)
theory Request_Interleaving
  imports Inference
begin

text \<open>
  Concurrent requests. Both prediction routes of \<open>src/server.js\<close> are \<open>async\<close>: a
  request runs synchronously between its \<open>await\<close>s and gives way to other requests at
  each of them, so the segments of different requests interleave on the one tensor
  store. A request's segments are: decoding (\<open>await Jimp.read\<close>, line 61) followed by
  the rest of \<open>preprocessImage\<close> (lines 62--86), which makes its two tensors; after
  \<open>await preprocessImage\<close> (line 176), the part of \<open>makePrediction\<close> up to
  \<open>await prediction.data()\<close> (lines 95--102), which runs the model; after that
  \<open>await\<close>, the rest (lines 102--118), which reads the score and disposes of the two
  tensors. \<open>req_stage\<close> is where a request stands, \<open>seg\<close> runs its next segment, and
  \<open>interleave\<close> runs the segments in the order a schedule (a list of request indices)
  gives, which is any order the event loop may choose.
\<close>

datatype req_stage =
    Received "byte list"
  | Preprocessed nat
  | Predicted nat nat
  | Finished "pipeline_error + prediction"

text \<open>One segment of a request, with the globals \<open>isModelLoaded\<close> and \<open>model\<close> as
  parameters.\<close>

definition seg ::
  "jimp \<Rightarrow> bool \<Rightarrow> graph_model option \<Rightarrow> engine \<Rightarrow> req_stage \<Rightarrow> engine \<times> req_stage" where
  "seg J isModelLoaded model e st =
     (case st of
        Received imageBuffer \<Rightarrow>
          (case preprocessImage J e imageBuffer of
             (e1, Inl err) \<Rightarrow> (e1, Finished (Inl err))
           | (e1, Inr imageTensor) \<Rightarrow> (e1, Preprocessed imageTensor))
      | Preprocessed imageTensor \<Rightarrow>
          (if \<not> isModelLoaded then (e, Finished (Inl PredictionError))
           else case model of
             None \<Rightarrow> (e, Finished (Inl PredictionError))
           | Some m \<Rightarrow>
               (case graph_predict m e imageTensor of
                  Inl _ \<Rightarrow> (e, Finished (Inl PredictionError))
                | Inr (e1, prediction) \<Rightarrow> (e1, Predicted imageTensor prediction)))
      | Predicted imageTensor prediction \<Rightarrow>
          (case data_sync e prediction of
             Inl _ \<Rightarrow> (e, Finished (Inl PredictionError))
           | Inr predictionData \<Rightarrow>
               (dispose (dispose e imageTensor) prediction,
                Finished (Inr (interpret_score (js_index predictionData 0)))))
      | Finished r \<Rightarrow> (e, Finished r))"

text \<open>The segments in the order of a schedule; an index that names no request is
  skipped.\<close>

fun interleave ::
  "jimp \<Rightarrow> bool \<Rightarrow> graph_model option \<Rightarrow> engine \<Rightarrow> req_stage list \<Rightarrow> nat list \<Rightarrow> engine \<times> req_stage list" where
  "interleave J loaded model e rs [] = (e, rs)"
| "interleave J loaded model e rs (i # sch) =
     (if i < length rs
      then (case seg J loaded model e (rs ! i) of
              (e', s') \<Rightarrow> interleave J loaded model e' (rs[i := s']) sch)
      else interleave J loaded model e rs sch)"

text \<open>The tensors a request holds at each stage.\<close>

fun owned :: "req_stage \<Rightarrow> nat set" where
  "owned (Received _) = {}"
| "owned (Preprocessed t) = {t}"
| "owned (Predicted t p) = {t, p}"
| "owned (Finished _) = {}"

text \<open>How many segments a request has left.\<close>

fun stage_rank :: "req_stage \<Rightarrow> nat" where
  "stage_rank (Received _) = 3"
| "stage_rank (Preprocessed _) = 2"
| "stage_rank (Predicted _ _) = 1"
| "stage_rank (Finished _) = 0"

text \<open>What a tensor shows to its holder: its handle and the values of its buffer.\<close>

definition tensor_view :: "engine \<Rightarrow> nat \<Rightarrow> (tensor_info \<times> jsnum list) option" where
  "tensor_view e t =
     (case tensors e t of
        None \<Rightarrow> None
      | Some ti \<Rightarrow> (case buffers e (tdata ti) of None \<Rightarrow> None | Some (vs, _) \<Rightarrow> Some (ti, vs)))"

text \<open>The answer a request in a given stage gets if its remaining segments run now,
  one after the other.\<close>

function outcome ::
  "jimp \<Rightarrow> bool \<Rightarrow> graph_model option \<Rightarrow> engine \<Rightarrow> req_stage \<Rightarrow> pipeline_error + prediction" where
  "outcome J loaded model e (Finished r) = r"
| "outcome J loaded model e (Predicted t p) =
     (case data_sync e p of
        Inl _ \<Rightarrow> Inl PredictionError
      | Inr d \<Rightarrow> Inr (interpret_score (js_index d 0)))"
| "outcome J loaded model e (Preprocessed t) =
     (if \<not> loaded then Inl PredictionError
      else case model of
        None \<Rightarrow> Inl PredictionError
      | Some m \<Rightarrow>
          (case graph_predict m e t of
             Inl _ \<Rightarrow> Inl PredictionError
           | Inr (e1, p) \<Rightarrow> outcome J loaded model e1 (Predicted t p)))"
| "outcome J loaded model e (Received buf) = snd (run_pipeline J loaded model e buf)"
  by pat_completeness auto
termination
  by (relation "measure (\<lambda>(J, loaded, model, e, st). stage_rank st)") auto

text \<open>The invariant of a set of requests in flight: the store is well formed, every
  request's tensors are live, and no two requests share a tensor.\<close>

definition inflight_ok :: "engine \<Rightarrow> req_stage list \<Rightarrow> bool" where
  "inflight_ok e rs \<longleftrightarrow>
     engine_wf e \<and>
     (\<forall>i < length rs. owned (rs ! i) \<subseteq> dom (tensors e)) \<and>
     (\<forall>i < length rs. \<forall>j < length rs. i \<noteq> j \<longrightarrow> owned (rs ! i) \<inter> owned (rs ! j) = {})"

text \<open>Fixture for the witnesses: a Jimp whose resize gives a bitmap of the asked size
  with no bytes, so that the pipeline runs on the zero-filled array without a pixel loop.\<close>

definition blank_jimp :: jimp where
  "blank_jimp = \<lparr>jimp_read = (\<lambda>bs. if bs = [] then None else Some demo_bitmap),
                 jimp_resize = (\<lambda>w h img. \<lparr>width = w, height = h, bdata = []\<rparr>)\<rparr>"

subsection \<open>Frame lemmas of the store\<close>

lemma wf_live_below:
  "engine_wf e \<Longrightarrow> tensors e t = Some ti \<Longrightarrow> t < next_id e \<and> tdata ti < next_id e"
  unfolding engine_wf_def by (metis domI)

lemma refs_of_two:
  assumes "finite (dom m)" and "m h = Some th" and "m t = Some ti" and "h \<noteq> t"
    and "tdata th = tdata ti"
  shows "2 \<le> refs_of m (tdata th)"
proof -
  let ?S = "{x. \<exists>tx. m x = Some tx \<and> tdata tx = tdata th}"
  have "finite ?S" by (rule finite_subset [of _ "dom m"]) (auto simp: assms(1))
  moreover have "{h, t} \<subseteq> ?S" using assms(2,3,5) by auto
  ultimately have "card {h, t} \<le> card ?S" by (rule card_mono)
  then show ?thesis using assms(4) by (simp add: refs_of_def)
qed

lemma view_alloc_tensor:
  assumes "engine_wf e" and "tensors e t \<noteq> None"
  shows "tensor_view (fst (alloc_tensor e vs sh)) t = tensor_view e t"
    and "tensors (fst (alloc_tensor e vs sh)) t \<noteq> None"
proof -
  obtain ti where ti: "tensors e t = Some ti" using assms(2) by auto
  have "t \<noteq> next_id e" "tdata ti \<noteq> next_id e" using wf_live_below [OF assms(1) ti] by simp_all
  then show "tensor_view (fst (alloc_tensor e vs sh)) t = tensor_view e t"
    "tensors (fst (alloc_tensor e vs sh)) t \<noteq> None"
    using ti by (simp_all add: alloc_tensor_def tensor_view_def Let_def)
qed

lemma expand_dims_alloc:
  "expand_dims e t' a = Inr (e', n) \<Longrightarrow> \<exists>vs sh. alloc_tensor e vs sh = (e', n)"
  by (auto simp: expand_dims_def split: option.splits if_splits)

lemma view_expand_dims:
  assumes "engine_wf e" and "tensors e t \<noteq> None" and "expand_dims e t' a = Inr (e', n)"
  shows "tensor_view e' t = tensor_view e t" and "tensors e' t \<noteq> None"
proof -
  obtain vs sh where "alloc_tensor e vs sh = (e', n)"
    using expand_dims_alloc [OF assms(3)] by blast
  then have "e' = fst (alloc_tensor e vs sh)" by simp
  then show "tensor_view e' t = tensor_view e t" "tensors e' t \<noteq> None"
    using view_alloc_tensor [OF assms(1,2)] by simp_all
qed

lemma view_dispose:
  assumes "engine_wf e" and "tensors e t \<noteq> None" and "h \<noteq> t"
  shows "tensor_view (dispose e h) t = tensor_view e t" and "tensors (dispose e h) t \<noteq> None"
proof -
  obtain ti where ti: "tensors e t = Some ti" using assms(2) by auto
  show "tensors (dispose e h) t \<noteq> None"
    using ti assms(3) by (auto simp: dispose_def Let_def split: option.splits)
  show "tensor_view (dispose e h) t = tensor_view e t"
  proof (cases "tensors e h")
    case None
    then show ?thesis by (simp add: dispose_def)
  next
    case (Some th)
    show ?thesis
    proof (cases "buffers e (tdata th)")
      case None
      with Some ti assms(3) show ?thesis by (simp add: dispose_def tensor_view_def Let_def)
    next
      case (Some b)
      obtain vs rc where b: "b = (vs, rc)" by (cases b)
      have rc: "rc = refs_of (tensors e) (tdata th)"
        using assms(1) \<open>tensors e h = Some th\<close> Some b engine_wf_buffer_of by fastforce
      have "tdata th \<noteq> tdata ti" if "rc \<le> 1"
        using refs_of_two [OF engine_wf_finite [OF assms(1)] \<open>tensors e h = Some th\<close> ti assms(3)] rc that
        by auto
      then show ?thesis using \<open>tensors e h = Some th\<close> Some b ti assms(3)
        by (auto simp: dispose_def tensor_view_def Let_def)
    qed
  qed
qed

lemma graph_predict_alloc:
  "graph_predict m e t' = Inr (e1, p) \<Longrightarrow> \<exists>vs. alloc_tensor e vs (outputShape m) = (e1, p)"
  by (auto simp: graph_predict_def split: option.splits if_splits)

lemma view_graph_predict:
  assumes "engine_wf e" and "tensors e t \<noteq> None" and "graph_predict m e t' = Inr (e1, p)"
  shows "tensor_view e1 t = tensor_view e t" and "tensors e1 t \<noteq> None"
proof -
  obtain vs where "alloc_tensor e vs (outputShape m) = (e1, p)"
    using graph_predict_alloc [OF assms(3)] by blast
  then have "e1 = fst (alloc_tensor e vs (outputShape m))" by simp
  then show "tensor_view e1 t = tensor_view e t" "tensors e1 t \<noteq> None"
    using view_alloc_tensor [OF assms(1,2)] by simp_all
qed

lemma graph_predict_fresh:
  "graph_predict m e t' = Inr (e1, p) \<Longrightarrow> p = next_id e \<and> tensors e1 p \<noteq> None \<and> next_id e \<le> next_id e1"
  by (auto simp: graph_predict_def alloc_tensor_def Let_def split: option.splits if_splits)

lemma view_preprocessImage:
  assumes "engine_wf e" and "tensors e t \<noteq> None"
  shows "tensor_view (fst (preprocessImage J e buf)) t = tensor_view e t \<and>
         tensors (fst (preprocessImage J e buf)) t \<noteq> None"
proof (cases "jimp_read J buf")
  case None
  then show ?thesis using assms(2) by (simp add: preprocessImage_def)
next
  case (Some img)
  let ?rgb = "to_rgb (jimp_resize J 224 224 img)"
  show ?thesis
  proof (cases "tensor3d e ?rgb [224, 224, 3]")
    case (Inl err)
    with Some assms(2) show ?thesis by (simp add: preprocessImage_def Let_def)
  next
    case (Inr r)
    obtain e1 t3 where r: "r = (e1, t3)" by (cases r)
    have e1: "e1 = fst (alloc_tensor e ?rgb [224, 224, 3])"
      using Inr r by (simp add: tensor3d_def split: if_splits)
    have wf1: "engine_wf e1" using e1 alloc_tensor_wf [OF assms(1)] by simp
    have v1: "tensor_view e1 t = tensor_view e t" "tensors e1 t \<noteq> None"
      using view_alloc_tensor [OF assms] e1 by simp_all
    show ?thesis
    proof (cases "expand_dims e1 t3 0")
      case (Inl err)
      with Some Inr r v1 show ?thesis by (simp add: preprocessImage_def Let_def)
    next
      case (Inr q)
      obtain e2 n where q: "q = (e2, n)" by (cases q)
      with Some \<open>tensor3d e ?rgb [224, 224, 3] = Inr r\<close> r Inr v1
        view_expand_dims [OF wf1 v1(2), of t3 0 e2 n]
      show ?thesis by (simp add: preprocessImage_def Let_def)
    qed
  qed
qed

lemma preprocessImage_fresh:
  "preprocessImage J e buf = (e1, Inr t) \<Longrightarrow> next_id e \<le> t \<and> tensors e1 t \<noteq> None"
  by (auto simp: preprocessImage_def tensor3d_def alloc_tensor_def expand_dims_def Let_def
      split: option.splits sum.splits if_splits)

lemma seg_wf:
  assumes "engine_wf e"
  shows "engine_wf (fst (seg J loaded model e st))"
proof (cases st)
  case (Received buf)
  then show ?thesis using preprocessImage_wf [OF assms, of J buf]
    by (cases "preprocessImage J e buf") (auto simp: seg_def split: sum.split)
qed (use assms in \<open>auto simp: seg_def intro: graph_predict_wf dispose_wf split: sum.split option.split\<close>)

lemma seg_frame:
  assumes "engine_wf e" and "tensors e t \<noteq> None" and "t \<notin> owned st"
  shows "tensor_view (fst (seg J loaded model e st)) t = tensor_view e t \<and>
         tensors (fst (seg J loaded model e st)) t \<noteq> None"
proof (cases st)
  case (Received buf)
  then show ?thesis using view_preprocessImage [OF assms(1,2), of J buf]
    by (cases "preprocessImage J e buf") (auto simp: seg_def split: sum.split)
next
  case (Preprocessed t')
  then show ?thesis using view_graph_predict [OF assms(1,2)] assms(2)
    by (auto simp: seg_def split: option.split sum.split)
next
  case (Predicted t' p)
  then have ne: "t' \<noteq> t" "p \<noteq> t" using assms(3) by auto
  have d1: "tensor_view (dispose e t') t = tensor_view e t" "tensors (dispose e t') t \<noteq> None"
    using view_dispose [OF assms(1,2) ne(1)] by simp_all
  have d2: "tensor_view (dispose (dispose e t') p) t = tensor_view (dispose e t') t"
    "tensors (dispose (dispose e t') p) t \<noteq> None"
    using view_dispose [OF dispose_wf [OF assms(1)] d1(2) ne(2)] by simp_all
  show ?thesis using Predicted d1 d2 assms(2) by (simp add: seg_def split: sum.split)
next
  case (Finished r)
  then show ?thesis using assms(2) by (simp add: seg_def)
qed

lemma seg_owned:
  assumes "engine_wf e" and "owned st \<subseteq> dom (tensors e)"
  shows "owned (snd (seg J loaded model e st)) \<subseteq> dom (tensors (fst (seg J loaded model e st)))"
    and "\<And>x. x \<in> owned (snd (seg J loaded model e st)) \<Longrightarrow> x \<notin> owned st \<Longrightarrow> next_id e \<le> x"
proof -
  have "owned (snd (seg J loaded model e st)) \<subseteq> dom (tensors (fst (seg J loaded model e st))) \<and>
        (\<forall>x \<in> owned (snd (seg J loaded model e st)). x \<notin> owned st \<longrightarrow> next_id e \<le> x)"
  proof (cases st)
    case (Received buf)
    then show ?thesis using preprocessImage_fresh [of J e buf]
      by (cases "preprocessImage J e buf") (auto simp: seg_def split: sum.split)
  next
    case (Preprocessed t)
    then have t: "tensors e t \<noteq> None" using assms(2) by auto
    show ?thesis using Preprocessed view_graph_predict [OF assms(1) t] graph_predict_fresh
      by (auto simp: seg_def split: option.split sum.split)
  qed (simp_all add: seg_def split: sum.split)
  then show "owned (snd (seg J loaded model e st)) \<subseteq> dom (tensors (fst (seg J loaded model e st)))"
    and "\<And>x. x \<in> owned (snd (seg J loaded model e st)) \<Longrightarrow> x \<notin> owned st \<Longrightarrow> next_id e \<le> x"
    by blast+
qed

lemma data_sync_view:
  "data_sync e p = (case tensor_view e p of None \<Rightarrow> Inl DisposedError | Some (_, vs) \<Rightarrow> Inr vs)"
  by (simp add: data_sync_def tensor_view_def split: option.split)

lemma outcome_Preprocessed_view:
  "outcome J loaded model e (Preprocessed t) =
     (if \<not> loaded then Inl PredictionError
      else case model of
        None \<Rightarrow> Inl PredictionError
      | Some m \<Rightarrow>
          (case tensor_view e t of
             None \<Rightarrow> Inl PredictionError
           | Some (ti, vs) \<Rightarrow>
               if shape_compatible (inputShape m) (tshape ti)
               then Inr (interpret_score (js_index (forward m vs) 0)) else Inl PredictionError))"
  by (auto simp: graph_predict_def tensor_view_def data_sync_def alloc_tensor_def Let_def
      split: option.split)

lemma outcome_frame:
  assumes "\<forall>x \<in> owned st. tensor_view e' x = tensor_view e x"
  shows "outcome J loaded model e' st = outcome J loaded model e st"
proof (cases st)
  case (Received buf)
  then show ?thesis using run_pipeline_result_store_free by simp
next
  case (Preprocessed t)
  then have "tensor_view e' t = tensor_view e t" using assms by simp
  with Preprocessed show ?thesis by (simp only: outcome_Preprocessed_view)
next
  case (Predicted t p)
  then show ?thesis using assms by (simp add: data_sync_view)
qed simp

lemma outcome_seg:
  "outcome J loaded model (fst (seg J loaded model e st)) (snd (seg J loaded model e st)) =
   outcome J loaded model e st"
proof (cases st)
  case (Received buf)
  then show ?thesis
    by (cases "preprocessImage J e buf")
      (auto simp: seg_def run_pipeline_def makePrediction_def Let_def
        split: sum.split option.split)
qed (auto simp: seg_def split: sum.split option.split)

subsection \<open>The invariant of requests in flight\<close>

lemma inflight_ok_init: "engine_wf e \<Longrightarrow> inflight_ok e (map Received bufs)"
  by (simp add: inflight_ok_def)

lemma inflight_ok_step:
  assumes ok: "inflight_ok e rs" and j: "j < length rs"
  shows "inflight_ok (fst (seg J loaded model e (rs ! j))) (rs[j := snd (seg J loaded model e (rs ! j))])"
    and "\<And>i. i < length rs \<Longrightarrow> i \<noteq> j \<Longrightarrow>
           outcome J loaded model (fst (seg J loaded model e (rs ! j))) (rs ! i) = outcome J loaded model e (rs ! i)"
proof -
  let ?e' = "fst (seg J loaded model e (rs ! j))" and ?s' = "snd (seg J loaded model e (rs ! j))"
  have wf: "engine_wf e" and live: "\<And>i. i < length rs \<Longrightarrow> owned (rs ! i) \<subseteq> dom (tensors e)"
    and disj: "\<And>i k. i < length rs \<Longrightarrow> k < length rs \<Longrightarrow> i \<noteq> k \<Longrightarrow> owned (rs ! i) \<inter> owned (rs ! k) = {}"
    using ok by (auto simp: inflight_ok_def)
  have other: "tensor_view ?e' x = tensor_view e x \<and> tensors ?e' x \<noteq> None"
    if "i < length rs" "i \<noteq> j" "x \<in> owned (rs ! i)" for i x
  proof -
    have "x \<notin> owned (rs ! j)" using disj [OF that(1) j that(2)] that(3) by blast
    moreover have "tensors e x \<noteq> None" using live [OF that(1)] that(3) by auto
    ultimately show ?thesis using seg_frame [OF wf] by blast
  qed
  show "\<And>i. i < length rs \<Longrightarrow> i \<noteq> j \<Longrightarrow> outcome J loaded model ?e' (rs ! i) = outcome J loaded model e (rs ! i)"
    using other by (blast intro: outcome_frame)
  have new_live: "owned ?s' \<subseteq> dom (tensors ?e')" and
    new_fresh: "\<And>x. x \<in> owned ?s' \<Longrightarrow> x \<notin> owned (rs ! j) \<Longrightarrow> next_id e \<le> x"
    using seg_owned [OF wf live [OF j]] by blast+
  have below: "x < next_id e" if "i < length rs" "x \<in> owned (rs ! i)" for i x
    using live [OF that(1)] that(2) wf by (auto simp: engine_wf_def)
  have disj': "owned ?s' \<inter> owned (rs ! i) = {}" if "i < length rs" "i \<noteq> j" for i
  proof -
    have "x \<notin> owned (rs ! i)" if x: "x \<in> owned ?s'" for x
    proof (cases "x \<in> owned (rs ! j)")
      case True
      then show ?thesis using disj [OF \<open>i < length rs\<close> j \<open>i \<noteq> j\<close>] by blast
    next
      case False
      then show ?thesis using new_fresh [OF x] below [OF \<open>i < length rs\<close>] by fastforce
    qed
    then show ?thesis by blast
  qed
  show "inflight_ok ?e' (rs[j := ?s'])"
    unfolding inflight_ok_def
  proof (intro conjI allI impI)
    show "engine_wf ?e'" using seg_wf [OF wf] .
  next
    fix i assume i: "i < length (rs[j := ?s'])"
    show "owned (rs[j := ?s'] ! i) \<subseteq> dom (tensors ?e')"
      using new_live other i by (cases "i = j") auto
  next
    fix i k assume "i < length (rs[j := ?s'])" "k < length (rs[j := ?s'])" "i \<noteq> k"
    then show "owned (rs[j := ?s'] ! i) \<inter> owned (rs[j := ?s'] ! k) = {}"
      using disj disj' by (cases "i = j"; cases "k = j") (auto simp: Int_commute)
  qed
qed

lemma interleave_Cons_in:
  "j < length rs \<Longrightarrow> interleave J loaded model e rs (j # sch) =
     interleave J loaded model (fst (seg J loaded model e (rs ! j))) (rs[j := snd (seg J loaded model e (rs ! j))]) sch"
  by (simp split: prod.split)

lemma length_interleave: "length (snd (interleave J loaded model e rs sch)) = length rs"
  by (induction sch arbitrary: e rs) (auto split: prod.split)

lemma interleave_inv:
  assumes "inflight_ok e rs"
  shows "inflight_ok (fst (interleave J loaded model e rs sch)) (snd (interleave J loaded model e rs sch)) \<and>
         (\<forall>i < length rs. outcome J loaded model (fst (interleave J loaded model e rs sch))
                              (snd (interleave J loaded model e rs sch) ! i) = outcome J loaded model e (rs ! i))"
  using assms
proof (induction sch arbitrary: e rs)
  case (Cons j sch)
  show ?case
  proof (cases "j < length rs")
    case True
    let ?e' = "fst (seg J loaded model e (rs ! j))" and ?s' = "snd (seg J loaded model e (rs ! j))"
    have ok': "inflight_ok ?e' (rs[j := ?s'])" using inflight_ok_step(1) [OF Cons.prems True] .
    have out: "outcome J loaded model ?e' (rs[j := ?s'] ! i) = outcome J loaded model e (rs ! i)"
      if "i < length rs" for i
      using that True outcome_seg inflight_ok_step(2) [OF Cons.prems True] by (cases "i = j") auto
    show ?thesis using Cons.IH [OF ok'] out True by (simp add: interleave_Cons_in del: interleave.simps(2))
  qed (use Cons in simp)
qed simp

lemma interleave_demo_eval:
  "snd (interleave blank_jimp True (Some demo_model) empty_engine (map Received [[1], [2]]) [0, 1, 1, 0, 0, 1]) =
   [Finished (Inr \<lparr>diagnosis = Maligno, confidence = Num 90, rawPrediction = Num (9 / 10)\<rparr>),
    Finished (Inr \<lparr>diagnosis = Maligno, confidence = Num 90, rawPrediction = Num (9 / 10)\<rparr>)]"
  by (simp add: seg_def blank_jimp_def preprocessImage_def to_rgb_def rgb_loop.simps tensor3d_def
      alloc_tensor_def expand_dims_def graph_predict_def data_sync_def dispose_def empty_engine_def
      demo_model_def shape_compatible_def Let_def interpret_score_Num round2_def js_simps)

subsection \<open>Properties\<close>

text \<open>
  C24: concurrent requests do not interfere: however the event loop interleaves the
  segments of several requests on the shared tensor store, every request that finishes
  gets exactly the answer it would get if it ran alone, and the store stays well formed.
  Each request's tensors, and their data buffers, are its own, and another request's
  \<open>dispose\<close> never touches them.
\<close>

theorem interleaved_requests_isolated:
  assumes "engine_wf e" and "i < length bufs"
    and "snd (interleave J loaded model e (map Received bufs) sch) ! i = Finished r"
  shows "r = snd (run_pipeline J loaded model e (bufs ! i)) \<and>
         engine_wf (fst (interleave J loaded model e (map Received bufs) sch))"
proof -
  have inv: "inflight_ok (fst (interleave J loaded model e (map Received bufs) sch))
                (snd (interleave J loaded model e (map Received bufs) sch)) \<and>
             (\<forall>k < length bufs. outcome J loaded model (fst (interleave J loaded model e (map Received bufs) sch))
                 (snd (interleave J loaded model e (map Received bufs) sch) ! k) =
               outcome J loaded model e (map Received bufs ! k))"
    using interleave_inv [OF inflight_ok_init [OF assms(1), of bufs], of J loaded model sch] by simp
  then show ?thesis using assms(2,3) by (auto simp: inflight_ok_def)
qed

theorem interleaved_requests_isolated_witness:
  "Inr \<lparr>diagnosis = Maligno, confidence = Num 90, rawPrediction = Num (9 / 10)\<rparr> =
     snd (run_pipeline blank_jimp True (Some demo_model) empty_engine [2])"
  using interleaved_requests_isolated [where e = empty_engine and i = 1 and bufs = "[[1], [2]]" and J = blank_jimp
      and loaded = True and model = "Some demo_model" and sch = "[0, 1, 1, 0, 0, 1]", OF engine_wf_empty]
    interleave_demo_eval
  by simp

end
